theory Spec2Isabelle
  imports Complex_Main "HOL-Library.Multiset"
begin

section \<open>Values\<close>

text \<open>
  A \<^verbatim>\<open>datetime\<close> is the number of microseconds since the epoch (the resolution of
  Python's \<^verbatim>\<open>datetime\<close>), a \<^verbatim>\<open>timedelta\<close> a number of microseconds. Prices are
  Python floats; they are modelled as reals, so the rounding of floating-point
  arithmetic is not part of the model.
\<close>

type_synonym datetime = int

definition minutes :: "int \<Rightarrow> int" where
  "minutes n = n * 60000000"

definition seconds :: "int \<Rightarrow> int" where
  "seconds n = n * 1000000"

text \<open>Decoded JSON. Python's \<^verbatim>\<open>None\<close> is \<open>JNull\<close>.\<close>

datatype json =
    JNull
  | JBool bool
  | JNum real
  | JStr string
  | JArr "json list"
  | JObj "(string \<times> json) list"

text \<open>Python truthiness (\<^verbatim>\<open>bool(x)\<close>, the test that \<^verbatim>\<open>if x\<close>, \<^verbatim>\<open>not x\<close> and
  \<^verbatim>\<open>all([...])\<close> apply).\<close>

fun truthy :: "json \<Rightarrow> bool" where
  "truthy JNull = False"
| "truthy (JBool b) = b"
| "truthy (JNum r) = (r \<noteq> 0)"
| "truthy (JStr s) = (s \<noteq> [])"
| "truthy (JArr xs) = (xs \<noteq> [])"
| "truthy (JObj kv) = (kv \<noteq> [])"

text \<open>\<^verbatim>\<open>d.get(k)\<close> on a decoded JSON object: a later duplicate key wins when the
  object is decoded, a missing key gives \<^verbatim>\<open>None\<close>.\<close>

definition dict_get :: "(string \<times> json) list \<Rightarrow> string \<Rightarrow> json" where
  "dict_get kv k = (case map_of (rev kv) k of None \<Rightarrow> JNull | Some v \<Rightarrow> v)"

text \<open>\<^verbatim>\<open>x or default\<close> on an optional string.\<close>

definition str_or :: "string option \<Rightarrow> string \<Rightarrow> string" where
  "str_or x dflt = (case x of None \<Rightarrow> dflt | Some v \<Rightarrow> if v = [] then dflt else v)"

subsection \<open>Strings\<close>

text \<open>
  \<^verbatim>\<open>str.upper\<close>, \<^verbatim>\<open>str.isalpha\<close> and \<^verbatim>\<open>str.strip\<close> on ASCII text: a character outside
  \<^verbatim>\<open>a-z\<close> is left as it is by \<open>upper\<close> and only \<^verbatim>\<open>A-Za-z\<close> count as letters.
\<close>

definition upper_char :: "char \<Rightarrow> char" where
  "upper_char c =
     (let n = (of_char c :: nat) in if 97 \<le> n \<and> n \<le> 122 then char_of (n - 32) else c)"

definition upper :: "string \<Rightarrow> string" where
  "upper s = map upper_char s"

definition is_letter :: "char \<Rightarrow> bool" where
  "is_letter c =
     (let n = (of_char c :: nat) in (65 \<le> n \<and> n \<le> 90) \<or> (97 \<le> n \<and> n \<le> 122))"

definition isalpha :: "string \<Rightarrow> bool" where
  "isalpha s = (s \<noteq> [] \<and> list_all is_letter s)"

definition is_space :: "char \<Rightarrow> bool" where
  "is_space c = (let n = (of_char c :: nat) in n = 32 \<or> (9 \<le> n \<and> n \<le> 13) \<or> (28 \<le> n \<and> n \<le> 31))"

definition strip :: "string \<Rightarrow> string" where
  "strip s = rev (dropWhile is_space (rev (dropWhile is_space s)))"

text \<open>\<^verbatim>\<open>s.replace('Z', '+00:00')\<close>.\<close>

definition replace_Z :: "string \<Rightarrow> string" where
  "replace_Z s = concat (map (\<lambda>c. if c = CHR ''Z'' then ''+00:00'' else [c]) s)"

subsection \<open>Exceptions\<close>

text \<open>
  The text of an exception that the source builds is kept; the text of one raised by
  the interpreter or a library is its class name.
\<close>

datatype exn =
    ValueError string
  | TypeError
  | AttributeError
  | IntegrityError
  | RequestValidationError
  | HTTPException nat string

fun str_exn :: "exn \<Rightarrow> string" where
  "str_exn (ValueError m) = m"
| "str_exn TypeError = ''TypeError''"
| "str_exn AttributeError = ''AttributeError''"
| "str_exn IntegrityError = ''IntegrityError''"
| "str_exn RequestValidationError = ''RequestValidationError''"
| "str_exn (HTTPException c m) = m"

section \<open>The store (app/models/database.py)\<close>

text \<open>
  The \<^verbatim>\<open>id\<close> of a row (\<^verbatim>\<open>uuid.uuid4\<close> in the source) is the row's position in its
  table. \<^verbatim>\<open>polling_job_configs\<close> has a unique index on \<^verbatim>\<open>job_id\<close> and is a map keyed by
  it; the other tables are lists in insertion order.
\<close>

record RawMarketData =
  rmd_id :: nat
  rmd_symbol :: string
  rmd_provider :: string
  rmd_raw_response :: json
  rmd_timestamp :: datetime

record ProcessedPricePoint =
  pp_id :: nat
  pp_symbol :: string
  pp_price :: real
  pp_timestamp :: datetime
  pp_provider :: string
  pp_raw_response_id :: nat

record MovingAverage =
  ma_symbol :: string
  ma_moving_average :: real
  ma_period :: int
  ma_timestamp :: datetime

record PollingJobConfig =
  pj_job_id :: string
  pj_symbols :: "string list"
  pj_interval :: int
  pj_provider :: string
  pj_status :: string
  pj_created_at :: datetime
  pj_updated_at :: datetime
  pj_last_run :: "datetime option"
  pj_next_run :: "datetime option"
  pj_error_message :: "string option"

record database =
  raw_market_data :: "RawMarketData list"
  processed_price_points :: "ProcessedPricePoint list"
  moving_averages :: "MovingAverage list"
  polling_job_configs :: "string \<rightharpoonup> PollingJobConfig"

section \<open>DataAccessLayer (app/services/data_access.py)\<close>

text \<open>
  Every operation takes the database and returns it changed; \<open>utcnow\<close> is the value of
  \<^verbatim>\<open>datetime.utcnow()\<close> during the call. The database itself does not fail: a commit
  raises only where a constraint of the schema is broken (the unique \<^verbatim>\<open>job_id\<close>).
\<close>

text \<open>\<^verbatim>\<open>if provider:\<close> and \<^verbatim>\<open>if error_message:\<close> on an optional string.\<close>

definition given :: "string option \<Rightarrow> bool" where
  "given x = (case x of None \<Rightarrow> False | Some v \<Rightarrow> v \<noteq> [])"

text \<open>
  \<^verbatim>\<open>query.order_by(desc(col))\<close>: the rows by falling \<open>col\<close>. SQL leaves the order of
  rows with equal \<open>col\<close> open; here the row inserted later comes first.
\<close>

definition order_by_desc :: "('a \<Rightarrow> int) \<Rightarrow> 'a list \<Rightarrow> 'a list" where
  "order_by_desc col rows = rev (sort_key col rows)"

definition first :: "'a list \<Rightarrow> 'a option" where
  "first rows = (case rows of [] \<Rightarrow> None | r # _ \<Rightarrow> Some r)"

definition save_raw_market_data ::
  "database \<Rightarrow> string \<Rightarrow> string \<Rightarrow> json \<Rightarrow> datetime \<Rightarrow> RawMarketData \<times> database" where
  "save_raw_market_data d symbol provider raw_response utcnow =
     (let raw_data = \<lparr>rmd_id = length (raw_market_data d), rmd_symbol = upper symbol,
                       rmd_provider = provider, rmd_raw_response = raw_response,
                       rmd_timestamp = utcnow\<rparr>
      in (raw_data, d\<lparr>raw_market_data := raw_market_data d @ [raw_data]\<rparr>))"

definition save_price_point ::
  "database \<Rightarrow> string \<Rightarrow> real \<Rightarrow> datetime \<Rightarrow> string \<Rightarrow> nat \<Rightarrow> ProcessedPricePoint \<times> database" where
  "save_price_point d symbol price timestamp provider raw_response_id =
     (let price_point = \<lparr>pp_id = length (processed_price_points d), pp_symbol = upper symbol,
                          pp_price = price, pp_timestamp = timestamp, pp_provider = provider,
                          pp_raw_response_id = raw_response_id\<rparr>
      in (price_point, d\<lparr>processed_price_points := processed_price_points d @ [price_point]\<rparr>))"

text \<open>\<^verbatim>\<open>DataAccessLayer.get_latest_price\<close>; the service has a method of the same name.\<close>

definition dal_get_latest_price ::
  "database \<Rightarrow> string \<Rightarrow> string option \<Rightarrow> ProcessedPricePoint option" where
  "dal_get_latest_price d symbol provider =
     (let query = filter (\<lambda>p. pp_symbol p = upper symbol) (processed_price_points d);
          query = (if given provider then filter (\<lambda>p. Some (pp_provider p) = provider) query
                   else query)
      in first (order_by_desc pp_timestamp query))"

definition get_last_n_prices ::
  "database \<Rightarrow> string \<Rightarrow> nat \<Rightarrow> string option \<Rightarrow> ProcessedPricePoint list" where
  "get_last_n_prices d symbol n provider =
     (let query = filter (\<lambda>p. pp_symbol p = upper symbol) (processed_price_points d);
          query = (if given provider then filter (\<lambda>p. Some (pp_provider p) = provider) query
                   else query)
      in take n (order_by_desc pp_timestamp query))"

definition save_moving_average ::
  "database \<Rightarrow> string \<Rightarrow> real \<Rightarrow> int \<Rightarrow> datetime \<Rightarrow> MovingAverage \<times> database" where
  "save_moving_average d symbol moving_average period utcnow =
     (let ma = \<lparr>ma_symbol = upper symbol, ma_moving_average = moving_average,
                 ma_period = period, ma_timestamp = utcnow\<rparr>
      in (ma, d\<lparr>moving_averages := moving_averages d @ [ma]\<rparr>))"

definition save_polling_job ::
  "database \<Rightarrow> string \<Rightarrow> string list \<Rightarrow> int \<Rightarrow> string \<Rightarrow> datetime \<Rightarrow> exn + PollingJobConfig \<times> database" where
  "save_polling_job d job_id symbols interval provider utcnow =
     (case polling_job_configs d job_id of
        Some _ \<Rightarrow> Inl IntegrityError
      | None \<Rightarrow>
          (let job = \<lparr>pj_job_id = job_id, pj_symbols = symbols, pj_interval = interval,
                       pj_provider = provider, pj_status = ''active'', pj_created_at = utcnow,
                       pj_updated_at = utcnow, pj_last_run = None, pj_next_run = Some utcnow,
                       pj_error_message = None\<rparr>
           in Inr (job, d\<lparr>polling_job_configs := (polling_job_configs d)(job_id \<mapsto> job)\<rparr>)))"

definition get_polling_job :: "database \<Rightarrow> string \<Rightarrow> PollingJobConfig option" where
  "get_polling_job d job_id = polling_job_configs d job_id"

definition update_polling_job_status ::
  "database \<Rightarrow> string \<Rightarrow> string \<Rightarrow> string option \<Rightarrow> datetime \<Rightarrow> bool \<times> database" where
  "update_polling_job_status d job_id status error_message utcnow =
     (case get_polling_job d job_id of
        Some job \<Rightarrow>
          (let job = job\<lparr>pj_status := status, pj_updated_at := utcnow\<rparr>;
               job = (if given error_message
                      then job\<lparr>pj_error_message := error_message\<rparr> else job)
           in (True, d\<lparr>polling_job_configs := (polling_job_configs d)(job_id \<mapsto> job)\<rparr>))
      | None \<Rightarrow> (False, d))"

definition update_polling_job_run_time ::
  "database \<Rightarrow> string \<Rightarrow> datetime \<Rightarrow> datetime \<Rightarrow> datetime \<Rightarrow> bool \<times> database" where
  "update_polling_job_run_time d job_id last_run next_run utcnow =
     (case get_polling_job d job_id of
        Some job \<Rightarrow>
          (let job = job\<lparr>pj_last_run := Some last_run, pj_next_run := Some next_run,
                          pj_updated_at := utcnow\<rparr>
           in (True, d\<lparr>polling_job_configs := (polling_job_configs d)(job_id \<mapsto> job)\<rparr>))
      | None \<Rightarrow> (False, d))"

section \<open>Providers (app/services/providers)\<close>

text \<open>The dictionary that \<^verbatim>\<open>format_response\<close> builds.\<close>

record provider_response =
  rs_symbol :: string
  rs_price :: real
  rs_timestamp :: datetime
  rs_provider :: string
  rs_raw_response :: json

text \<open>
  A provider instance: its \<^verbatim>\<open>name\<close> and its \<^verbatim>\<open>get_latest_price\<close>. The call goes over the
  network, so its outcome is an input of the model: \<open>pv_get_latest_price p n symbol\<close>
  is what the call returns or raises when \<open>n\<close> provider calls have been made before it.
\<close>

record provider =
  pv_name :: string
  pv_get_latest_price :: "nat \<Rightarrow> string \<Rightarrow> exn + provider_response"

definition format_response :: "string \<Rightarrow> string \<Rightarrow> real \<Rightarrow> datetime \<Rightarrow> json \<Rightarrow> provider_response" where
  "format_response name symbol price timestamp raw_response =
     \<lparr>rs_symbol = upper symbol, rs_price = price, rs_timestamp = timestamp,
      rs_provider = name, rs_raw_response = raw_response\<rparr>"

text \<open>What the HTTP request of the Alpha Vantage client gives: a client error (also
  from \<^verbatim>\<open>raise_for_status\<close>) or the decoded body, an object.\<close>

datatype http_reply = HttpClientError string | HttpJson "(string \<times> json) list"

text \<open>\<^verbatim>\<open>float(x)\<close>; the parsing of a string is the parameter \<open>str_float\<close>.\<close>

fun py_float :: "(string \<Rightarrow> real option) \<Rightarrow> json \<Rightarrow> exn + real" where
  "py_float str_float (JNum r) = Inr r"
| "py_float str_float (JBool b) = Inr (if b then 1 else 0)"
| "py_float str_float (JStr s) =
     (case str_float s of None \<Rightarrow> Inl (ValueError ''could not convert string to float'')
      | Some r \<Rightarrow> Inr r)"
| "py_float str_float _ = Inl TypeError"

text \<open>The body of the \<^verbatim>\<open>try\<close> in \<^verbatim>\<open>AlphaVantageProvider.get_latest_price\<close>, after the
  request has returned \<open>data\<close>.\<close>

definition alpha_vantage_quote ::
  "(string \<Rightarrow> real option) \<Rightarrow> (string \<times> json) list \<Rightarrow> datetime \<Rightarrow> string \<Rightarrow> exn + provider_response" where
  "alpha_vantage_quote str_float data now symbol =
     (if map_of (rev data) ''Error Message'' \<noteq> None then
        Inl (ValueError (''Alpha Vantage API Error: '' @
               (case dict_get data ''Error Message'' of JStr m \<Rightarrow> m | _ \<Rightarrow> [])))
      else if map_of (rev data) ''Note'' \<noteq> None then
        Inl (ValueError ''Alpha Vantage API rate limit exceeded'')
      else
        (let quote = (case map_of (rev data) ''Global Quote'' of None \<Rightarrow> JObj [] | Some q \<Rightarrow> q)
         in if \<not> truthy quote then Inl (ValueError (''No data found for symbol '' @ symbol))
            else (case quote of
                    JObj q \<Rightarrow>
                      (case py_float str_float
                              (case map_of (rev q) ''05. price'' of None \<Rightarrow> JNum 0 | Some v \<Rightarrow> v) of
                         Inl e \<Rightarrow> Inl e
                       | Inr price \<Rightarrow>
                           Inr (format_response ''alphavantage'' symbol price now (JObj data)))
                  | _ \<Rightarrow> Inl AttributeError)))"

definition alpha_vantage_get_latest_price ::
  "(string \<Rightarrow> real option) \<Rightarrow> http_reply \<Rightarrow> datetime \<Rightarrow> string \<Rightarrow> exn + provider_response" where
  "alpha_vantage_get_latest_price str_float reply now symbol =
     (case reply of
        HttpClientError m \<Rightarrow>
          Inl (ValueError (''Failed to fetch data from Alpha Vantage: '' @ m))
      | HttpJson data \<Rightarrow>
          (case alpha_vantage_quote str_float data now symbol of
             Inl e \<Rightarrow> Inl (ValueError (''Unexpected error: '' @ str_exn e))
           | Inr r \<Rightarrow> Inr r))"

text \<open>
  \<^verbatim>\<open>AlphaVantageProvider(api_key)\<close>: \<open>http n symbol\<close> is the reply to the request of call
  \<open>n\<close>, \<open>clock n\<close> the local time then. The name is the class name in lower case
  without \<^verbatim>\<open>provider\<close>. A missing key raises.
\<close>

definition AlphaVantageProvider ::
  "string option \<Rightarrow> (string \<Rightarrow> real option) \<Rightarrow> (nat \<Rightarrow> string \<Rightarrow> http_reply) \<Rightarrow> (nat \<Rightarrow> datetime)
     \<Rightarrow> exn + provider" where
  "AlphaVantageProvider api_key str_float http clock =
     (if api_key = None \<or> api_key = Some [] then Inl (ValueError ''Alpha Vantage API key is required'')
      else Inr \<lparr>pv_name = ''alphavantage'',
                pv_get_latest_price =
                  (\<lambda>n symbol. alpha_vantage_get_latest_price str_float (http n (upper symbol)) (clock n) symbol)\<rparr>)"

section \<open>The service and its surroundings\<close>

text \<open>A message on the \<^verbatim>\<open>price-events\<close> topic and one on \<^verbatim>\<open>symbol_averages\<close>.\<close>

record price_event =
  pe_key :: string
  pe_symbol :: string
  pe_price :: real
  pe_timestamp :: datetime
  pe_source :: string
  pe_raw_response_id :: nat

record average_event =
  ae_key :: string
  ae_symbol :: string
  ae_moving_average :: real
  ae_period :: int
  ae_timestamp :: datetime
  ae_calculated_at :: datetime

text \<open>A Kafka producer handle: \<^verbatim>\<open>None\<close> when its construction failed, otherwise one
  whose \<^verbatim>\<open>produce\<close> works or raises.\<close>

datatype producer_handle = ProducerNone | ProducerUp | ProducerRaising

text \<open>An entry of the in-memory \<^verbatim>\<open>polling_jobs\<close> dictionary.\<close>

record job_config =
  jc_job_id :: string
  jc_symbols :: "string list"
  jc_interval :: int
  jc_provider :: string
  jc_status :: string
  jc_created_at :: datetime
  jc_last_run :: "datetime option"
  jc_next_run :: datetime

text \<open>
  The state that the operations read and change: the service's two dictionaries, the
  database, the two producers with the messages they have sent, the provider calls made
  so far (provider name and symbol) and the worker tasks created so far.
\<close>

record state =
  providers :: "string \<rightharpoonup> provider"
  polling_jobs :: "string \<rightharpoonup> job_config"
  db_state :: database
  producer :: producer_handle
  price_events :: "price_event list"
  ma_producer :: producer_handle
  symbol_averages :: "average_event list"
  provider_calls :: "(string \<times> string) list"
  tasks :: "string list"

definition DEFAULT_PROVIDER :: string where
  "DEFAULT_PROVIDER = ''alpha_vantage''"

subsection \<open>KafkaProducer (app/services/kafka_producer.py)\<close>

definition publish_price_event ::
  "string \<Rightarrow> real \<Rightarrow> datetime \<Rightarrow> string \<Rightarrow> nat \<Rightarrow> state \<Rightarrow> bool \<times> state" where
  "publish_price_event symbol price timestamp provider raw_response_id s =
     (case producer s of
        ProducerNone \<Rightarrow> (False, s)
      | ProducerRaising \<Rightarrow> (False, s)
      | ProducerUp \<Rightarrow>
          (True, s\<lparr>price_events := price_events s @
                     [\<lparr>pe_key = symbol, pe_symbol = upper symbol, pe_price = price,
                       pe_timestamp = timestamp, pe_source = provider,
                       pe_raw_response_id = raw_response_id\<rparr>]\<rparr>))"

subsection \<open>MarketDataService (app/services/market_data.py)\<close>

text \<open>\<^verbatim>\<open>_initialize_providers\<close>: a provider that cannot be built is left out.\<close>

definition initialize_providers :: "exn + provider \<Rightarrow> (string \<rightharpoonup> provider)" where
  "initialize_providers alpha_vantage =
     (case alpha_vantage of Inl e \<Rightarrow> Map.empty | Inr p \<Rightarrow> [''alpha_vantage'' \<mapsto> p])"

text \<open>The message of the error lists the available providers in the source; the list is
  left out here.\<close>

definition get_provider :: "state \<Rightarrow> string option \<Rightarrow> exn + provider" where
  "get_provider s provider_name =
     (let provider_name = str_or provider_name DEFAULT_PROVIDER
      in case providers s provider_name of
           None \<Rightarrow> Inl (ValueError (''Provider '' @ provider_name @ '' not available''))
         | Some p \<Rightarrow> Inr p)"

text \<open>The dictionary that \<^verbatim>\<open>get_latest_price\<close> returns.\<close>

record price_data =
  pd_symbol :: string
  pd_price :: real
  pd_timestamp :: datetime
  pd_provider :: string
  pd_raw_response :: "json option"
  pd_source :: string

text \<open>
  The \<^verbatim>\<open>try\<close> block of \<^verbatim>\<open>get_latest_price\<close> (lines 59 to 93): the provider is called
  once; with a session the raw response and the price point are saved and the event is
  published, whose result is not looked at; any exception becomes a \<^verbatim>\<open>ValueError\<close>.
\<close>

definition fetch_live :: "provider \<Rightarrow> string \<Rightarrow> bool \<Rightarrow> datetime \<Rightarrow> state \<Rightarrow> (exn + price_data) \<times> state" where
  "fetch_live provider_instance symbol db utcnow s =
     (let s1 = s\<lparr>provider_calls := provider_calls s @ [(pv_name provider_instance, symbol)]\<rparr>
      in case pv_get_latest_price provider_instance (length (provider_calls s)) symbol of
           Inl e \<Rightarrow>
             (Inl (ValueError (''Failed to get price for '' @ symbol @ '': '' @ str_exn e)), s1)
         | Inr result \<Rightarrow>
             (let live = \<lparr>pd_symbol = rs_symbol result, pd_price = rs_price result,
                           pd_timestamp = rs_timestamp result, pd_provider = rs_provider result,
                           pd_raw_response = Some (rs_raw_response result), pd_source = ''live''\<rparr>
              in if db then
                   (let (raw_data, d1) = save_raw_market_data (db_state s1) symbol
                                           (pv_name provider_instance) (rs_raw_response result) utcnow;
                        (price_point, d2) = save_price_point d1 symbol (rs_price result)
                                              (rs_timestamp result) (pv_name provider_instance)
                                              (rmd_id raw_data);
                        (published, s2) = publish_price_event symbol (rs_price result)
                                            (rs_timestamp result) (pv_name provider_instance)
                                            (rmd_id raw_data) (s1\<lparr>db_state := d2\<rparr>)
                    in (Inr live, s2))
                 else (Inr live, s1)))"

definition get_latest_price ::
  "string \<Rightarrow> string option \<Rightarrow> bool \<Rightarrow> bool \<Rightarrow> datetime \<Rightarrow> state \<Rightarrow> (exn + price_data) \<times> state" where
  "get_latest_price symbol provider db use_cache utcnow s =
     (case get_provider s provider of
        Inl e \<Rightarrow> (Inl e, s)
      | Inr provider_instance \<Rightarrow>
          (let symbol = upper symbol;
               recent_price = (if use_cache \<and> db
                               then dal_get_latest_price (db_state s) symbol
                                      (Some (pv_name provider_instance))
                               else None)
           in case recent_price of
                Some rp \<Rightarrow>
                  if pp_timestamp rp > utcnow - minutes 5
                  then (Inr \<lparr>pd_symbol = pp_symbol rp, pd_price = pp_price rp,
                              pd_timestamp = pp_timestamp rp, pd_provider = pp_provider rp,
                              pd_raw_response = None, pd_source = ''cache''\<rparr>, s)
                  else fetch_live provider_instance symbol db utcnow s
              | None \<Rightarrow> fetch_live provider_instance symbol db utcnow s))"

text \<open>
  \<^verbatim>\<open>start_polling_job\<close>; \<open>job_id\<close> is the identifier that \<^verbatim>\<open>uuid4\<close> gave. The new
  worker task is recorded in \<open>tasks\<close>.
\<close>

definition start_polling_job ::
  "string list \<Rightarrow> int \<Rightarrow> string option \<Rightarrow> bool \<Rightarrow> string \<Rightarrow> datetime \<Rightarrow> state \<Rightarrow> (exn + string) \<times> state" where
  "start_polling_job symbols interval provider db job_id utcnow s =
     (case (if db
            then (case save_polling_job (db_state s) job_id symbols interval
                         (str_or provider DEFAULT_PROVIDER) utcnow of
                    Inl e \<Rightarrow> Inl e
                  | Inr (job, d) \<Rightarrow> Inr d)
            else Inr (db_state s)) of
        Inl e \<Rightarrow> (Inl e, s)
      | Inr d \<Rightarrow>
          (let job_config = \<lparr>jc_job_id = job_id, jc_symbols = symbols, jc_interval = interval,
                              jc_provider = str_or provider DEFAULT_PROVIDER,
                              jc_status = ''active'', jc_created_at = utcnow,
                              jc_last_run = None, jc_next_run = utcnow\<rparr>
           in (Inr job_id,
               s\<lparr>db_state := d,
                 polling_jobs := (polling_jobs s)(job_id \<mapsto> job_config),
                 tasks := tasks s @ [job_id]\<rparr>)))"

text \<open>The \<^verbatim>\<open>for symbol in job["symbols"]\<close> loop of the worker.\<close>

fun poll_symbols :: "string \<Rightarrow> string \<Rightarrow> bool \<Rightarrow> datetime \<Rightarrow> string list \<Rightarrow> state \<Rightarrow> state" where
  "poll_symbols job_id provider db utcnow [] s = s"
| "poll_symbols job_id provider db utcnow (symbol # rest) s =
     (case get_latest_price symbol (Some provider) db False utcnow s of
        (Inr price_data, s1) \<Rightarrow> poll_symbols job_id provider db utcnow rest s1
      | (Inl e, s1) \<Rightarrow>
          poll_symbols job_id provider db utcnow rest
            (if db
             then s1\<lparr>db_state := snd (update_polling_job_status (db_state s1) job_id ''error''
                                         (Some (str_exn e)) utcnow)\<rparr>
             else s1))"

text \<open>
  One pass of the \<^verbatim>\<open>while\<close> loop of \<^verbatim>\<open>_polling_worker\<close>, up to the sleep. The outer
  handler of the loop is reached only when a database call raises, which the model does
  not have.
\<close>

definition polling_tick :: "string \<Rightarrow> bool \<Rightarrow> datetime \<Rightarrow> state \<Rightarrow> state" where
  "polling_tick job_id db utcnow s =
     (case polling_jobs s job_id of
        None \<Rightarrow> s
      | Some job \<Rightarrow>
          (let s1 = (if db
                     then s\<lparr>db_state := snd (update_polling_job_run_time (db_state s) job_id utcnow
                                                (utcnow + seconds (jc_interval job)) utcnow)\<rparr>
                     else s);
               s2 = poll_symbols job_id (jc_provider job) db utcnow (jc_symbols job) s1
           in s2\<lparr>polling_jobs := (polling_jobs s2)
                   (job_id \<mapsto> job\<lparr>jc_last_run := Some utcnow,
                                   jc_next_run := utcnow + seconds (jc_interval job)\<rparr>)\<rparr>))"

text \<open>
  \<^verbatim>\<open>_polling_worker\<close>. The schedule lists, for each pass, the time at which it runs and
  what the rest of the system does to the state while the worker sleeps; the worker
  stops when the job's in-memory status is no longer \<^verbatim>\<open>active\<close>, and is still running
  when the schedule is used up. A missing job returns at once; a provider that is not
  available raises before the loop.
\<close>

fun polling_worker_loop :: "string \<Rightarrow> bool \<Rightarrow> (datetime \<times> (state \<Rightarrow> state)) list \<Rightarrow> state \<Rightarrow> state" where
  "polling_worker_loop job_id db [] s = s"
| "polling_worker_loop job_id db ((utcnow, during_sleep) # schedule) s =
     (case polling_jobs s job_id of
        None \<Rightarrow> s
      | Some job \<Rightarrow>
          if jc_status job = ''active''
          then polling_worker_loop job_id db schedule (during_sleep (polling_tick job_id db utcnow s))
          else s)"

definition polling_worker ::
  "string \<Rightarrow> bool \<Rightarrow> (datetime \<times> (state \<Rightarrow> state)) list \<Rightarrow> state \<Rightarrow> (exn + unit) \<times> state" where
  "polling_worker job_id db schedule s =
     (case polling_jobs s job_id of
        None \<Rightarrow> (Inr (), s)
      | Some job \<Rightarrow>
          (case get_provider s (Some (jc_provider job)) of
             Inl e \<Rightarrow> (Inl e, s)
           | Inr provider_instance \<Rightarrow> (Inr (), polling_worker_loop job_id db schedule s)))"

definition stop_polling_job :: "string \<Rightarrow> bool \<Rightarrow> datetime \<Rightarrow> state \<Rightarrow> bool \<times> state" where
  "stop_polling_job job_id db utcnow s =
     (let s1 = (if db
                then s\<lparr>db_state := snd (update_polling_job_status (db_state s) job_id ''stopped''
                                           None utcnow)\<rparr>
                else s)
      in case polling_jobs s1 job_id of
           Some job \<Rightarrow>
             (True, s1\<lparr>polling_jobs := (polling_jobs s1)(job_id \<mapsto> job\<lparr>jc_status := ''stopped''\<rparr>)\<rparr>)
         | None \<Rightarrow> (db, s1))"

subsection \<open>The polling routes (app/schemas/prices.py, app/api)\<close>

text \<open>The body of a \<^verbatim>\<open>POST /prices/poll\<close> request, with the types of its fields already
  as the schema wants them, and the \<^verbatim>\<open>PollRequest\<close> built from it.\<close>

record poll_body =
  pb_symbols :: "string list"
  pb_interval :: "int option"
  pb_provider :: "string option"

record PollRequest =
  rq_symbols :: "string list"
  rq_interval :: int
  rq_provider :: "string option"

record PollResponse =
  po_job_id :: string
  po_status :: string
  po_symbols :: "string list"
  po_interval :: int
  po_provider :: string

definition ProviderEnum :: "string list" where
  "ProviderEnum = [''alpha_vantage'', ''yahoo'', ''finnhub'']"

definition validate_symbols :: "string list \<Rightarrow> exn + string list" where
  "validate_symbols v =
     (case find (\<lambda>symbol. symbol = [] \<or> length symbol > 10 \<or> \<not> isalpha symbol) v of
        Some symbol \<Rightarrow> Inl (ValueError (''Invalid symbol format: '' @ symbol))
      | None \<Rightarrow> Inr (map upper v))"

text \<open>
  The validation that building a \<^verbatim>\<open>PollRequest\<close> runs: one to ten symbols, each accepted
  by \<^verbatim>\<open>validate_symbols\<close>; an interval, when given, from 30 to 3600 and 60 otherwise; a
  provider, when given, of \<^verbatim>\<open>ProviderEnum\<close>. The framework answers a failure with status
  422 and does not call the route.
\<close>

definition parse_PollRequest :: "poll_body \<Rightarrow> exn + PollRequest" where
  "parse_PollRequest body =
     (if length (pb_symbols body) < 1 \<or> length (pb_symbols body) > 10 then Inl RequestValidationError
      else case validate_symbols (pb_symbols body) of
             Inl e \<Rightarrow> Inl RequestValidationError
           | Inr symbols \<Rightarrow>
               (case pb_interval body of
                  Some interval \<Rightarrow>
                    if interval < 30 \<or> interval > 3600 then Inl RequestValidationError
                    else if pb_provider body \<noteq> None \<and> the (pb_provider body) \<notin> set ProviderEnum
                    then Inl RequestValidationError
                    else Inr \<lparr>rq_symbols = symbols, rq_interval = interval,
                              rq_provider = pb_provider body\<rparr>
                | None \<Rightarrow>
                    if pb_provider body \<noteq> None \<and> the (pb_provider body) \<notin> set ProviderEnum
                    then Inl RequestValidationError
                    else Inr \<lparr>rq_symbols = symbols, rq_interval = 60,
                              rq_provider = pb_provider body\<rparr>))"

text \<open>\<^verbatim>\<open>validate_symbol\<close> of app/api/dependencies.py and the list comprehension over it.\<close>

definition validate_symbol :: "string \<Rightarrow> exn + string" where
  "validate_symbol symbol =
     (if symbol = [] \<or> length symbol > 10
      then Inl (HTTPException 400 ''Symbol must be between 1 and 10 characters'')
      else Inr (strip (upper symbol)))"

fun validate_each :: "string list \<Rightarrow> exn + string list" where
  "validate_each [] = Inr []"
| "validate_each (s # rest) =
     (case validate_symbol s of
        Inl e \<Rightarrow> Inl e
      | Inr v \<Rightarrow> (case validate_each rest of Inl e \<Rightarrow> Inl e | Inr vs \<Rightarrow> Inr (v # vs)))"

text \<open>The route \<^verbatim>\<open>start_polling\<close>; the session is always injected.\<close>

definition start_polling ::
  "poll_body \<Rightarrow> string \<Rightarrow> datetime \<Rightarrow> state \<Rightarrow> (exn + PollResponse) \<times> state" where
  "start_polling body job_id utcnow s =
     (case parse_PollRequest body of
        Inl e \<Rightarrow> (Inl e, s)
      | Inr request \<Rightarrow>
          (case validate_each (rq_symbols request) of
             Inl e \<Rightarrow>
               (Inl (HTTPException 503 (''Failed to start polling job: '' @ str_exn e)), s)
           | Inr validated_symbols \<Rightarrow>
               (case start_polling_job validated_symbols (rq_interval request)
                       (rq_provider request) True job_id utcnow s of
                  (Inl (ValueError m), s1) \<Rightarrow> (Inl (HTTPException 400 m), s1)
                | (Inl e, s1) \<Rightarrow>
                    (Inl (HTTPException 503 (''Failed to start polling job: '' @ str_exn e)), s1)
                | (Inr job_id, s1) \<Rightarrow>
                    (Inr \<lparr>po_job_id = job_id, po_status = ''accepted'',
                           po_symbols = validated_symbols, po_interval = rq_interval request,
                           po_provider = str_or (rq_provider request) ''alpha_vantage''\<rparr>, s1))))"

text \<open>The route \<^verbatim>\<open>stop_polling_job\<close> (\<^verbatim>\<open>DELETE /prices/poll/{job_id}\<close>).\<close>

definition route_stop_polling_job :: "string \<Rightarrow> datetime \<Rightarrow> state \<Rightarrow> (exn + string \<times> string) \<times> state" where
  "route_stop_polling_job job_id utcnow s =
     (case stop_polling_job job_id True utcnow s of
        (success, s1) \<Rightarrow>
          if \<not> success
          then (Inl (HTTPException 404 (''Polling job '' @ job_id @ '' not found'')), s1)
          else (Inr (job_id, ''stopped''), s1))"

section \<open>MovingAverageConsumer (app/services/kafka_consumer.py)\<close>

text \<open>Any exception inside \<^verbatim>\<open>_calculate_moving_average\<close> gives \<^verbatim>\<open>None\<close>.\<close>

definition calculate_moving_average :: "database \<Rightarrow> string \<Rightarrow> real option" where
  "calculate_moving_average d symbol =
     (let recent_prices = get_last_n_prices d symbol 5 None
      in if length recent_prices < 5 then None
         else (let prices = map pp_price recent_prices
               in Some (sum_list prices / real (length prices))))"

definition publish_moving_average :: "string \<Rightarrow> real \<Rightarrow> datetime \<Rightarrow> datetime \<Rightarrow> state \<Rightarrow> state" where
  "publish_moving_average symbol moving_average timestamp utcnow s =
     (case ma_producer s of
        ProducerUp \<Rightarrow>
          s\<lparr>symbol_averages := symbol_averages s @
               [\<lparr>ae_key = symbol, ae_symbol = symbol, ae_moving_average = moving_average,
                 ae_period = 5, ae_timestamp = timestamp, ae_calculated_at = utcnow\<rparr>]\<rparr>
      | _ \<Rightarrow> s)"

text \<open>
  \<^verbatim>\<open>_process_price_event\<close>. \<open>fromisoformat\<close> is \<^verbatim>\<open>datetime.fromisoformat\<close>, \<open>None\<close>
  where it raises. Every exception is caught and logged, so the function only changes
  the state: a message that is not an object, a timestamp that is not a string or does
  not parse, and a symbol that is not a string (its \<^verbatim>\<open>upper\<close> raises inside
  \<^verbatim>\<open>_calculate_moving_average\<close>) all leave the state as it is.
\<close>

definition process_price_event ::
  "(string \<Rightarrow> datetime option) \<Rightarrow> json \<Rightarrow> datetime \<Rightarrow> state \<Rightarrow> state" where
  "process_price_event fromisoformat message_data utcnow s =
     (case message_data of
        JObj kv \<Rightarrow>
          (let symbol_value = dict_get kv ''symbol'';
               price = dict_get kv ''price'';
               timestamp_str = dict_get kv ''timestamp''
           in if \<not> list_all truthy [symbol_value, price, timestamp_str] then s
              else (case timestamp_str of
                      JStr ts \<Rightarrow>
                        (case fromisoformat (replace_Z ts) of
                           None \<Rightarrow> s
                         | Some timestamp \<Rightarrow>
                             (case symbol_value of
                                JStr symbol \<Rightarrow>
                                  (case calculate_moving_average (db_state s) symbol of
                                     None \<Rightarrow> s
                                   | Some moving_avg \<Rightarrow>
                                       publish_moving_average symbol moving_avg timestamp utcnow
                                         (s\<lparr>db_state := snd (save_moving_average (db_state s) symbol
                                                                moving_avg 5 utcnow)\<rparr>))
                              | _ \<Rightarrow> s))
                    | _ \<Rightarrow> s))
      | _ \<Rightarrow> s)"

section \<open>Vocabulary of the properties\<close>

text \<open>The persisted price points of a symbol, whatever its case.\<close>

definition points_for :: "database \<Rightarrow> string \<Rightarrow> ProcessedPricePoint list" where
  "points_for d symbol = filter (\<lambda>p. pp_symbol p = upper symbol) (processed_price_points d)"

text \<open>A raw price event for \<open>symbol\<close> that passes the consumer's checks: the three fields
  are truthy, the symbol is a string and the timestamp a string that parses.\<close>

definition well_formed_event ::
  "(string \<Rightarrow> datetime option) \<Rightarrow> (string \<times> json) list \<Rightarrow> string \<Rightarrow> datetime \<Rightarrow> bool" where
  "well_formed_event fromisoformat kv symbol timestamp =
     (dict_get kv ''symbol'' = JStr symbol \<and> symbol \<noteq> [] \<and> truthy (dict_get kv ''price'') \<and>
      (case dict_get kv ''timestamp'' of
         JStr ts \<Rightarrow> ts \<noteq> [] \<and> fromisoformat (replace_Z ts) = Some timestamp
       | _ \<Rightarrow> False))"

section \<open>Example data\<close>

definition point :: "nat \<Rightarrow> string \<Rightarrow> real \<Rightarrow> datetime \<Rightarrow> ProcessedPricePoint" where
  "point i symbol price timestamp =
     \<lparr>pp_id = i, pp_symbol = symbol, pp_price = price, pp_timestamp = timestamp,
      pp_provider = ''alphavantage'', pp_raw_response_id = i\<rparr>"

definition five_points :: "ProcessedPricePoint list" where
  "five_points = [point 0 ''AAPL'' 100 10, point 1 ''AAPL'' 101 20, point 2 ''AAPL'' 99 30,
                  point 3 ''AAPL'' 102 40, point 4 ''AAPL'' 98 50]"

definition db_with :: "ProcessedPricePoint list \<Rightarrow> database" where
  "db_with points = \<lparr>raw_market_data = [], processed_price_points = points,
                      moving_averages = [], polling_job_configs = Map.empty\<rparr>"

definition idle_state :: "database \<Rightarrow> state" where
  "idle_state d = \<lparr>providers = Map.empty, polling_jobs = Map.empty, db_state = d,
                   producer = ProducerUp, price_events = [], ma_producer = ProducerUp,
                   symbol_averages = [], provider_calls = [], tasks = []\<rparr>"

definition iso_example :: "string \<Rightarrow> datetime option" where
  "iso_example ts = (if ts = ''2024-03-20T10:30:00+00:00'' then Some 1710930600000000 else None)"

definition event_example :: "json \<Rightarrow> json \<Rightarrow> (string \<times> json) list" where
  "event_example symbol price =
     [(''symbol'', symbol), (''price'', price), (''timestamp'', JStr ''2024-03-20T10:30:00Z''),
      (''source'', JStr ''alphavantage''), (''raw_response_id'', JStr ''0'')]"

definition four_points :: "ProcessedPricePoint list" where
  "four_points = [point 0 ''AAPL'' 100 10, point 1 ''AAPL'' 101 20, point 2 ''AAPL'' 99 30,
                  point 3 ''AAPL'' 102 40, point 4 ''MSFT'' 98 50, point 5 ''MSFT'' 97 60]"

text \<open>The stored price points of a symbol, whatever its case, and a provider name; the
  dictionary returned on a cache hit.\<close>

definition pair_points :: "database \<Rightarrow> string \<Rightarrow> string \<Rightarrow> ProcessedPricePoint list" where
  "pair_points d symbol provider =
     filter (\<lambda>p. pp_symbol p = upper symbol \<and> pp_provider p = provider) (processed_price_points d)"

definition cache_entry :: "ProcessedPricePoint \<Rightarrow> price_data" where
  "cache_entry rp = \<lparr>pd_symbol = pp_symbol rp, pd_price = pp_price rp,
                      pd_timestamp = pp_timestamp rp, pd_provider = pp_provider rp,
                      pd_raw_response = None, pd_source = ''cache''\<rparr>"

definition example_float :: "string \<Rightarrow> real option" where
  "example_float s = (if s = ''150.25'' then Some 150.25 else None)"

definition example_http :: "nat \<Rightarrow> string \<Rightarrow> http_reply" where
  "example_http n symbol =
     (if symbol = ''AAPL''
      then HttpJson [(''Global Quote'', JObj [(''01. symbol'', JStr ''AAPL''),
                                             (''05. price'', JStr ''150.25'')])]
      else HttpJson [(''Note'', JStr ''Thank you for using Alpha Vantage!'')])"

definition example_clock :: "nat \<Rightarrow> datetime" where
  "example_clock n = 1710930600000000 + int n"

definition example_provider :: provider where
  "example_provider =
     \<lparr>pv_name = ''alphavantage'',
      pv_get_latest_price =
        (\<lambda>n symbol. alpha_vantage_get_latest_price example_float (example_http n (upper symbol))
                       (example_clock n) symbol)\<rparr>"

definition service_state :: "database \<Rightarrow> producer_handle \<Rightarrow> state" where
  "service_state d kafka =
     \<lparr>providers = initialize_providers
                     (AlphaVantageProvider (Some ''demo'') example_float example_http example_clock),
      polling_jobs = Map.empty, db_state = d, producer = kafka, price_events = [],
      ma_producer = ProducerUp, symbol_averages = [], provider_calls = [], tasks = []\<rparr>"

definition cached_point :: ProcessedPricePoint where
  "cached_point = \<lparr>pp_id = 0, pp_symbol = ''AAPL'', pp_price = 149.5,
                    pp_timestamp = 1710930540000000, pp_provider = ''alphavantage'',
                    pp_raw_response_id = 0\<rparr>"

section \<open>Vocabulary and example data of the polling routes\<close>

text \<open>The symbols and the provider of a request body pass the schema; the row that a
  successful start saves.\<close>

definition acceptable_symbols_and_provider :: "poll_body \<Rightarrow> bool" where
  "acceptable_symbols_and_provider body =
     (1 \<le> length (pb_symbols body) \<and> length (pb_symbols body) \<le> 10 \<and>
      list_all (\<lambda>symbol. symbol \<noteq> [] \<and> length symbol \<le> 10 \<and> isalpha symbol) (pb_symbols body) \<and>
      (case pb_provider body of None \<Rightarrow> True | Some p \<Rightarrow> p \<in> set ProviderEnum))"

definition new_job :: "string \<Rightarrow> poll_body \<Rightarrow> int \<Rightarrow> datetime \<Rightarrow> PollingJobConfig" where
  "new_job job_id body interval utcnow =
     \<lparr>pj_job_id = job_id, pj_symbols = map (\<lambda>symbol. strip (upper symbol)) (pb_symbols body),
      pj_interval = interval, pj_provider = str_or (pb_provider body) DEFAULT_PROVIDER,
      pj_status = ''active'', pj_created_at = utcnow, pj_updated_at = utcnow,
      pj_last_run = None, pj_next_run = Some utcnow, pj_error_message = None\<rparr>"

definition poll_body_example :: "int \<Rightarrow> poll_body" where
  "poll_body_example interval =
     \<lparr>pb_symbols = [''aapl'', ''MSFT''], pb_interval = Some interval, pb_provider = None\<rparr>"

section \<open>Example data of the polling worker\<close>

definition polling_state :: state where
  "polling_state =
     snd (start_polling_job [''MSFT'', ''AAPL''] 60 None True ''poll_a1b2c3d4'' 1710930600000000
            (service_state (db_with []) ProducerUp))"

section \<open>Strings and queries\<close>

lemma upper_char_idem: "upper_char (upper_char c) = upper_char c"
proof (cases "97 \<le> (of_char c :: nat) \<and> (of_char c :: nat) \<le> 122")
  case True
  then have m: "(of_char c - 32 :: nat) mod 256 = of_char c - 32"
    by (intro mod_less) linarith
  from True have u: "upper_char c = char_of (of_char c - 32 :: nat)"
    by (simp add: upper_char_def Let_def)
  have "(of_char (char_of (of_char c - 32 :: nat) :: char) :: nat) = of_char c - 32"
    using m by simp
  moreover have "\<not> (97 \<le> (of_char c - 32 :: nat))"
    using True by linarith
  ultimately have "upper_char (char_of (of_char c - 32 :: nat)) = char_of (of_char c - 32 :: nat)"
    by (simp add: upper_char_def Let_def)
  with u show ?thesis by simp
next
  case False
  then have "upper_char c = c"
    by (auto simp add: upper_char_def Let_def)
  then show ?thesis by simp
qed

lemma upper_idem: "upper (upper s) = upper s"
  by (simp add: upper_def upper_char_idem)

lemma upper_AAPL: "upper ''AAPL'' = ''AAPL''" "upper ''aapl'' = ''AAPL''"
  by code_simp+

lemma sorted_order_by_desc: "sorted_wrt (\<lambda>a b. f b \<le> f a) (order_by_desc f xs)"
proof -
  have "sorted (map f (sort_key f xs))" by simp
  then have "sorted_wrt (\<lambda>a b. f a \<le> f b) (sort_key f xs)"
    by (simp add: sorted_map)
  then show ?thesis
    by (simp add: order_by_desc_def sorted_wrt_rev)
qed

lemma mset_order_by_desc: "mset (order_by_desc f xs) = mset xs"
  by (simp add: order_by_desc_def)

lemma length_order_by_desc: "length (order_by_desc f xs) = length xs"
  by (simp add: order_by_desc_def)

lemma order_by_desc_Nil: "order_by_desc f xs = [] \<longleftrightarrow> xs = []"
proof -
  have "length (order_by_desc f xs) = length xs"
    by (rule length_order_by_desc)
  then show ?thesis
    by (metis length_0_conv)
qed

lemma first_None: "first xs = None \<longleftrightarrow> xs = []"
  by (simp add: first_def split: list.splits)

lemma first_order_by_desc_max:
  assumes "first (order_by_desc f xs) = Some x"
  shows "x \<in> set xs \<and> (\<forall>y\<in>set xs. f y \<le> f x)"
proof -
  from assms obtain rest where eq: "order_by_desc f xs = x # rest"
    by (auto simp: first_def split: list.splits)
  have st: "set (order_by_desc f xs) = set xs"
    by (simp add: order_by_desc_def)
  from sorted_order_by_desc [of f xs] eq have "\<forall>y\<in>set rest. f y \<le> f x" by simp
  with eq st show ?thesis by auto
qed

lemma take_drop_order_by_desc:
  "mset (take n (order_by_desc f xs)) + mset (drop n (order_by_desc f xs)) = mset xs \<and>
   (\<forall>p\<in>set (take n (order_by_desc f xs)). \<forall>q\<in>set (drop n (order_by_desc f xs)). f q \<le> f p)"
proof -
  let ?ys = "order_by_desc f xs"
  have "mset (take n ?ys) + mset (drop n ?ys) = mset (take n ?ys @ drop n ?ys)"
    by (simp only: mset_append)
  then have a: "mset (take n ?ys) + mset (drop n ?ys) = mset xs"
    by (simp add: mset_order_by_desc)
  have "sorted_wrt (\<lambda>a b. f b \<le> f a) (take n ?ys @ drop n ?ys)"
    using sorted_order_by_desc [of f xs] by simp
  then have b: "\<forall>p\<in>set (take n ?ys). \<forall>q\<in>set (drop n ?ys). f q \<le> f p"
    unfolding sorted_wrt_append by blast
  from a b show ?thesis by blast
qed

lemma get_last_n_prices_None:
  "get_last_n_prices d symbol n None = take n (order_by_desc pp_timestamp (points_for d symbol))"
  by (simp add: get_last_n_prices_def points_for_def given_def)

lemma length_get_last_n_prices:
  "length (get_last_n_prices d symbol n None) = min n (length (points_for d symbol))"
  by (simp add: get_last_n_prices_None length_order_by_desc min.commute)

section \<open>The moving-average consumer\<close>

lemma calculate_moving_average_few:
  "length (points_for d symbol) < 5 \<Longrightarrow> calculate_moving_average d symbol = None"
  by (simp add: calculate_moving_average_def Let_def length_get_last_n_prices)

lemma calculate_moving_average_enough:
  assumes "5 \<le> length (points_for d symbol)"
  shows "calculate_moving_average d symbol =
           Some (sum_list (map pp_price (get_last_n_prices d symbol 5 None)) / 5)"
  using assms by (simp add: calculate_moving_average_def Let_def length_get_last_n_prices)

lemma calculate_moving_average_cong:
  "processed_price_points d' = processed_price_points d \<Longrightarrow>
   calculate_moving_average d' symbol = calculate_moving_average d symbol"
  by (simp add: calculate_moving_average_def get_last_n_prices_def)

lemma process_price_event_falsy:
  assumes "\<not> truthy (dict_get kv ''symbol'') \<or> \<not> truthy (dict_get kv ''price'')
           \<or> \<not> truthy (dict_get kv ''timestamp'')"
  shows "process_price_event fromisoformat (JObj kv) utcnow s = s"
  using assms by (auto simp add: process_price_event_def Let_def)

lemma process_price_event_None:
  assumes "dict_get kv ''symbol'' = JStr symbol"
    and "calculate_moving_average (db_state s) symbol = None"
  shows "process_price_event fromisoformat (JObj kv) utcnow s = s"
  using assms
  by (auto simp add: process_price_event_def Let_def split: json.splits option.splits)

lemma process_price_event_Some:
  assumes "well_formed_event fromisoformat kv symbol timestamp"
    and "calculate_moving_average (db_state s) symbol = Some v"
  shows "process_price_event fromisoformat (JObj kv) utcnow s =
           publish_moving_average symbol v timestamp utcnow
             (s\<lparr>db_state := snd (save_moving_average (db_state s) symbol v 5 utcnow)\<rparr>)"
  using assms
  by (auto simp add: process_price_event_def well_formed_event_def Let_def split: json.splits)

lemma process_price_event_skip:
  assumes "\<not> (\<exists>kv symbol timestamp v. message_data = JObj kv \<and>
              well_formed_event fromisoformat kv symbol timestamp \<and>
              calculate_moving_average (db_state s) symbol = Some v)"
  shows "process_price_event fromisoformat message_data utcnow s = s"
  using assms
  by (auto simp add: process_price_event_def well_formed_event_def Let_def
      split: json.splits option.splits)

lemma points_after_record:
  "processed_price_points (db_state (publish_moving_average symbol v timestamp utcnow
      (s\<lparr>db_state := snd (save_moving_average (db_state s) symbol v 5 utcnow)\<rparr>))) =
   processed_price_points (db_state s)"
  by (simp add: publish_moving_average_def save_moving_average_def Let_def
      split: producer_handle.splits)

lemma averages_after_record:
  "moving_averages (db_state (publish_moving_average symbol v timestamp utcnow
      (s\<lparr>db_state := snd (save_moving_average (db_state s) symbol v 5 utcnow)\<rparr>))) =
   moving_averages (db_state s) @
     [\<lparr>ma_symbol = upper symbol, ma_moving_average = v, ma_period = 5, ma_timestamp = utcnow\<rparr>]"
  by (simp add: publish_moving_average_def save_moving_average_def Let_def
      split: producer_handle.splits)

lemma wf_example:
  "well_formed_event iso_example (event_example (JStr ''aapl'') (JNum 98)) ''aapl'' 1710930600000000"
  by (simp add: well_formed_event_def event_example_def dict_get_def iso_example_def replace_Z_def)

text \<open>
  C2. When a symbol has at least five persisted price points, the consumer's moving
  average is the sum divided by the count of exactly five of them, and no other point of
  the symbol has a later timestamp than any of these five: a window of the five latest
  points, whatever the length of the history. For a well-formed raw price event of the
  symbol this value is the one in the record that is appended. For the five points
  100, 101, 99, 102, 98 it is 100.
\<close>

theorem moving_average_latest_five:
  assumes "5 \<le> length (points_for (db_state s) symbol)"
  shows "\<exists>recent rest.
           recent = get_last_n_prices (db_state s) symbol 5 None \<and>
           length recent = 5 \<and>
           mset recent + mset rest = mset (points_for (db_state s) symbol) \<and>
           (\<forall>p\<in>set recent. \<forall>q\<in>set rest. pp_timestamp q \<le> pp_timestamp p) \<and>
           calculate_moving_average (db_state s) symbol = Some (sum_list (map pp_price recent) / 5) \<and>
           (well_formed_event fromisoformat kv symbol timestamp \<longrightarrow>
              moving_averages (db_state (process_price_event fromisoformat (JObj kv) utcnow s)) =
                moving_averages (db_state s) @
                  [\<lparr>ma_symbol = upper symbol,
                    ma_moving_average = sum_list (map pp_price recent) / 5,
                    ma_period = 5, ma_timestamp = utcnow\<rparr>])"
proof -
  let ?d = "db_state s"
  let ?sorted = "order_by_desc pp_timestamp (points_for ?d symbol)"
  let ?recent = "get_last_n_prices ?d symbol 5 None"
  have r: "?recent = take 5 ?sorted"
    by (rule get_last_n_prices_None)
  have len: "length ?recent = 5"
    using assms by (simp add: length_get_last_n_prices)
  have split: "mset ?recent + mset (drop 5 ?sorted) = mset (points_for ?d symbol)"
    and older: "\<forall>p\<in>set ?recent. \<forall>q\<in>set (drop 5 ?sorted). pp_timestamp q \<le> pp_timestamp p"
    using take_drop_order_by_desc [of 5 pp_timestamp "points_for ?d symbol"] r by simp_all
  have avg: "calculate_moving_average ?d symbol = Some (sum_list (map pp_price ?recent) / 5)"
    using assms by (rule calculate_moving_average_enough)
  have rec: "well_formed_event fromisoformat kv symbol timestamp \<longrightarrow>
      moving_averages (db_state (process_price_event fromisoformat (JObj kv) utcnow s)) =
        moving_averages ?d @
          [\<lparr>ma_symbol = upper symbol, ma_moving_average = sum_list (map pp_price ?recent) / 5,
            ma_period = 5, ma_timestamp = utcnow\<rparr>]"
  proof
    assume wf: "well_formed_event fromisoformat kv symbol timestamp"
    show "moving_averages (db_state (process_price_event fromisoformat (JObj kv) utcnow s)) =
        moving_averages ?d @
          [\<lparr>ma_symbol = upper symbol, ma_moving_average = sum_list (map pp_price ?recent) / 5,
            ma_period = 5, ma_timestamp = utcnow\<rparr>]"
      using process_price_event_Some [OF wf avg] by (simp add: averages_after_record)
  qed
  from len split older avg rec show ?thesis by blast
qed

theorem moving_average_latest_five_witness:
  "5 \<le> length (points_for (db_state (idle_state (db_with five_points))) ''aapl'') \<and>
   well_formed_event iso_example (event_example (JStr ''aapl'') (JNum 98)) ''aapl'' 1710930600000000 \<and>
   calculate_moving_average (db_state (idle_state (db_with five_points))) ''aapl'' = Some 100 \<and>
   moving_averages (db_state (process_price_event iso_example
      (JObj (event_example (JStr ''aapl'') (JNum 98))) 1710930601000000
      (idle_state (db_with five_points)))) =
     [\<lparr>ma_symbol = ''AAPL'', ma_moving_average = 100, ma_period = 5,
       ma_timestamp = 1710930601000000\<rparr>]"
proof -
  let ?s = "idle_state (db_with five_points)"
  have h: "5 \<le> length (points_for (db_state ?s) ''aapl'')"
    by (simp add: idle_state_def points_for_def db_with_def five_points_def point_def upper_AAPL)
  have v: "sum_list (map pp_price (get_last_n_prices (db_state ?s) ''aapl'' 5 None)) / 5 = 100"
    by (simp add: idle_state_def get_last_n_prices_def given_def order_by_desc_def
        db_with_def five_points_def point_def upper_AAPL)
  have m: "moving_averages (db_state ?s) = []"
    by (simp add: idle_state_def db_with_def)
  from moving_average_latest_five [OF h, of iso_example "event_example (JStr ''aapl'') (JNum 98)"
      1710930600000000 1710930601000000] wf_example v m
  have "calculate_moving_average (db_state ?s) ''aapl'' = Some 100 \<and>
        moving_averages (db_state (process_price_event iso_example
          (JObj (event_example (JStr ''aapl'') (JNum 98))) 1710930601000000 ?s)) =
        [\<lparr>ma_symbol = ''AAPL'', ma_moving_average = 100, ma_period = 5,
          ma_timestamp = 1710930601000000\<rparr>]"
    by (auto simp add: upper_AAPL)
  with h wf_example show ?thesis by simp
qed

text \<open>
  C3. When the symbol of a raw price event has fewer than five persisted price points,
  processing the event leaves the whole state as it was: no moving-average record is
  saved and nothing is published on the averages topic.
\<close>

theorem fewer_than_five_points_no_action:
  assumes "dict_get kv ''symbol'' = JStr symbol"
    and "length (points_for (db_state s) symbol) < 5"
  shows "process_price_event fromisoformat (JObj kv) utcnow s = s"
  using assms by (simp add: process_price_event_None calculate_moving_average_few)

theorem fewer_than_five_points_no_action_witness:
  "dict_get (event_example (JStr ''aapl'') (JNum 98)) ''symbol'' = JStr ''aapl'' \<and>
   length (points_for (db_state (idle_state (db_with four_points))) ''aapl'') = 4 \<and>
   process_price_event iso_example (JObj (event_example (JStr ''aapl'') (JNum 98)))
     1710930601000000 (idle_state (db_with four_points)) = idle_state (db_with four_points)"
proof -
  let ?s = "idle_state (db_with four_points)"
  have a: "dict_get (event_example (JStr ''aapl'') (JNum 98)) ''symbol'' = JStr ''aapl''"
    by (simp add: event_example_def dict_get_def)
  have b: "length (points_for (db_state ?s) ''aapl'') = 4"
    by (simp add: idle_state_def points_for_def db_with_def four_points_def point_def upper_AAPL)
  then have c: "length (points_for (db_state ?s) ''aapl'') < 5" by simp
  from fewer_than_five_points_no_action [OF a c] a b show ?thesis by simp
qed

text \<open>
  C10. The check for a malformed event is Python truthiness: an event whose price is
  the number 0, or whose symbol is the empty string, is skipped although the field is
  present; the state stays as it was, so no record is saved and nothing is published.
\<close>

theorem zero_price_or_empty_symbol_skipped:
  assumes "dict_get kv ''price'' = JNum 0 \<or> dict_get kv ''symbol'' = JStr []"
  shows "process_price_event fromisoformat (JObj kv) utcnow s = s"
  using assms by (auto intro: process_price_event_falsy)

theorem zero_price_or_empty_symbol_skipped_witness:
  "dict_get (event_example (JStr ''aapl'') (JNum 0)) ''price'' = JNum 0 \<and>
   dict_get (event_example (JStr ''aapl'') (JNum 0)) ''symbol'' = JStr ''aapl'' \<and>
   dict_get (event_example (JStr ''aapl'') (JNum 0)) ''timestamp'' = JStr ''2024-03-20T10:30:00Z'' \<and>
   5 \<le> length (points_for (db_state (idle_state (db_with five_points))) ''aapl'') \<and>
   process_price_event iso_example (JObj (event_example (JStr ''aapl'') (JNum 0)))
     1710930601000000 (idle_state (db_with five_points)) = idle_state (db_with five_points) \<and>
   dict_get (event_example (JStr []) (JNum 98)) ''symbol'' = JStr [] \<and>
   process_price_event iso_example (JObj (event_example (JStr []) (JNum 98)))
     1710930601000000 (idle_state (db_with five_points)) = idle_state (db_with five_points)"
proof -
  let ?s = "idle_state (db_with five_points)"
  have a: "dict_get (event_example (JStr ''aapl'') (JNum 0)) ''price'' = JNum 0"
    by (simp add: event_example_def dict_get_def)
  have b: "dict_get (event_example (JStr []) (JNum 98)) ''symbol'' = JStr []"
    by (simp add: event_example_def dict_get_def)
  have c: "dict_get (event_example (JStr ''aapl'') (JNum 0)) ''symbol'' = JStr ''aapl''"
    "dict_get (event_example (JStr ''aapl'') (JNum 0)) ''timestamp'' = JStr ''2024-03-20T10:30:00Z''"
    by (simp_all add: event_example_def dict_get_def)
  have h: "5 \<le> length (points_for (db_state ?s) ''aapl'')"
    by (simp add: idle_state_def points_for_def db_with_def five_points_def point_def upper_AAPL)
  from zero_price_or_empty_symbol_skipped [of "event_example (JStr ''aapl'') (JNum 0)"] a
  have 1: "process_price_event iso_example (JObj (event_example (JStr ''aapl'') (JNum 0)))
     1710930601000000 ?s = ?s" by blast
  from zero_price_or_empty_symbol_skipped [of "event_example (JStr []) (JNum 98)"] b
  have 2: "process_price_event iso_example (JObj (event_example (JStr []) (JNum 98)))
     1710930601000000 ?s = ?s" by blast
  from a b c h 1 2 show ?thesis by simp
qed

lemma process_price_event_points:
  "processed_price_points (db_state (process_price_event fromisoformat message_data utcnow s)) =
   processed_price_points (db_state s)"
proof (cases "\<exists>kv symbol timestamp v. message_data = JObj kv \<and>
              well_formed_event fromisoformat kv symbol timestamp \<and>
              calculate_moving_average (db_state s) symbol = Some v")
  case True
  then obtain kv symbol timestamp v where m: "message_data = JObj kv"
    and wf: "well_formed_event fromisoformat kv symbol timestamp"
    and c: "calculate_moving_average (db_state s) symbol = Some v" by blast
  show ?thesis
    unfolding m process_price_event_Some [OF wf c] by (rule points_after_record)
next
  case False
  then show ?thesis by (simp add: process_price_event_skip)
qed

text \<open>
  C9. Processing the same raw price event twice, with no new price point in between,
  is total (every exception is caught inside) and leaves the price points as they were;
  it appends either nothing or two moving-average records with the same value. For a
  well-formed event of a symbol with at least five points it appends exactly two
  records, equal in symbol, value and period.
\<close>

theorem redelivery_appends_equal_values:
  "(\<exists>records.
      moving_averages (db_state (process_price_event fromisoformat message_data utcnow2
         (process_price_event fromisoformat message_data utcnow1 s))) =
        moving_averages (db_state s) @ records \<and>
      (records = [] \<or>
       (\<exists>r1 r2. records = [r1, r2] \<and> ma_moving_average r1 = ma_moving_average r2))) \<and>
   processed_price_points (db_state (process_price_event fromisoformat message_data utcnow2
         (process_price_event fromisoformat message_data utcnow1 s))) =
     processed_price_points (db_state s) \<and>
   (message_data = JObj kv \<and> well_formed_event fromisoformat kv symbol timestamp \<and>
    5 \<le> length (points_for (db_state s) symbol) \<longrightarrow>
      (\<exists>v. calculate_moving_average (db_state s) symbol = Some v \<and>
        moving_averages (db_state (process_price_event fromisoformat message_data utcnow2
           (process_price_event fromisoformat message_data utcnow1 s))) =
          moving_averages (db_state s) @
            [\<lparr>ma_symbol = upper symbol, ma_moving_average = v, ma_period = 5,
              ma_timestamp = utcnow1\<rparr>,
             \<lparr>ma_symbol = upper symbol, ma_moving_average = v, ma_period = 5,
              ma_timestamp = utcnow2\<rparr>]))"
proof -
  let ?s1 = "process_price_event fromisoformat message_data utcnow1 s"
  let ?s2 = "process_price_event fromisoformat message_data utcnow2 ?s1"
  have twice: "moving_averages (db_state ?s2) =
          moving_averages (db_state s) @
            [\<lparr>ma_symbol = upper sy, ma_moving_average = v, ma_period = 5, ma_timestamp = utcnow1\<rparr>,
             \<lparr>ma_symbol = upper sy, ma_moving_average = v, ma_period = 5, ma_timestamp = utcnow2\<rparr>]"
    if m: "message_data = JObj k" and wf: "well_formed_event fromisoformat k sy ts"
      and c: "calculate_moving_average (db_state s) sy = Some v" for k sy ts v
  proof -
    have s1: "?s1 = publish_moving_average sy v ts utcnow1
             (s\<lparr>db_state := snd (save_moving_average (db_state s) sy v 5 utcnow1)\<rparr>)"
      unfolding m by (rule process_price_event_Some [OF wf c])
    have "processed_price_points (db_state ?s1) = processed_price_points (db_state s)"
      by (rule process_price_event_points)
    from calculate_moving_average_cong [OF this, of sy] c
    have c1: "calculate_moving_average (db_state ?s1) sy = Some v"
      by simp
    have "moving_averages (db_state ?s2) =
        moving_averages (db_state ?s1) @
          [\<lparr>ma_symbol = upper sy, ma_moving_average = v, ma_period = 5, ma_timestamp = utcnow2\<rparr>]"
      using process_price_event_Some [OF wf c1, of utcnow2] m
      by (simp add: averages_after_record)
    moreover have "moving_averages (db_state ?s1) =
        moving_averages (db_state s) @
          [\<lparr>ma_symbol = upper sy, ma_moving_average = v, ma_period = 5, ma_timestamp = utcnow1\<rparr>]"
      using s1 by (simp add: averages_after_record)
    ultimately show ?thesis by simp
  qed
  have part1: "\<exists>records. moving_averages (db_state ?s2) = moving_averages (db_state s) @ records \<and>
      (records = [] \<or>
       (\<exists>r1 r2. records = [r1, r2] \<and> ma_moving_average r1 = ma_moving_average r2))"
  proof (cases "\<exists>k sy ts v. message_data = JObj k \<and> well_formed_event fromisoformat k sy ts \<and>
              calculate_moving_average (db_state s) sy = Some v")
    case True
    then obtain k sy ts v where "message_data = JObj k" "well_formed_event fromisoformat k sy ts"
      "calculate_moving_average (db_state s) sy = Some v" by blast
    from twice [OF this] show ?thesis
      by (intro exI [of _ "[\<lparr>ma_symbol = upper sy, ma_moving_average = v, ma_period = 5,
                              ma_timestamp = utcnow1\<rparr>,
                             \<lparr>ma_symbol = upper sy, ma_moving_average = v, ma_period = 5,
                              ma_timestamp = utcnow2\<rparr>]"]) simp
  next
    case False
    then have "?s1 = s" and "process_price_event fromisoformat message_data utcnow2 s = s"
      by (rule process_price_event_skip)+
    then have "?s2 = s" by simp
    then show ?thesis by simp
  qed
  have part2: "processed_price_points (db_state ?s2) = processed_price_points (db_state s)"
    by (simp add: process_price_event_points)
  have part3: "message_data = JObj kv \<and> well_formed_event fromisoformat kv symbol timestamp \<and>
    5 \<le> length (points_for (db_state s) symbol) \<longrightarrow>
      (\<exists>v. calculate_moving_average (db_state s) symbol = Some v \<and>
        moving_averages (db_state ?s2) =
          moving_averages (db_state s) @
            [\<lparr>ma_symbol = upper symbol, ma_moving_average = v, ma_period = 5,
              ma_timestamp = utcnow1\<rparr>,
             \<lparr>ma_symbol = upper symbol, ma_moving_average = v, ma_period = 5,
              ma_timestamp = utcnow2\<rparr>])"
  proof (intro impI, elim conjE)
    assume m: "message_data = JObj kv" and wf: "well_formed_event fromisoformat kv symbol timestamp"
      and n: "5 \<le> length (points_for (db_state s) symbol)"
    from n have c: "calculate_moving_average (db_state s) symbol =
        Some (sum_list (map pp_price (get_last_n_prices (db_state s) symbol 5 None)) / 5)"
      by (rule calculate_moving_average_enough)
    from twice [OF m wf c] c show "\<exists>v. calculate_moving_average (db_state s) symbol = Some v \<and>
        moving_averages (db_state ?s2) =
          moving_averages (db_state s) @
            [\<lparr>ma_symbol = upper symbol, ma_moving_average = v, ma_period = 5,
              ma_timestamp = utcnow1\<rparr>,
             \<lparr>ma_symbol = upper symbol, ma_moving_average = v, ma_period = 5,
              ma_timestamp = utcnow2\<rparr>]"
      by (intro exI [of _ "sum_list (map pp_price (get_last_n_prices (db_state s) symbol 5 None)) / 5"])
        simp
  qed
  show ?thesis
    by (rule conjI [OF part1 conjI [OF part2 part3]])
qed

theorem redelivery_appends_equal_values_witness:
  "well_formed_event iso_example (event_example (JStr ''aapl'') (JNum 98)) ''aapl'' 1710930600000000 \<and>
   5 \<le> length (points_for (db_state (idle_state (db_with five_points))) ''aapl'') \<and>
   moving_averages (db_state (process_price_event iso_example
      (JObj (event_example (JStr ''aapl'') (JNum 98))) 1710930602000000
      (process_price_event iso_example
        (JObj (event_example (JStr ''aapl'') (JNum 98))) 1710930601000000
        (idle_state (db_with five_points))))) =
     [\<lparr>ma_symbol = ''AAPL'', ma_moving_average = 100, ma_period = 5,
       ma_timestamp = 1710930601000000\<rparr>,
      \<lparr>ma_symbol = ''AAPL'', ma_moving_average = 100, ma_period = 5,
       ma_timestamp = 1710930602000000\<rparr>]"
proof -
  let ?s = "idle_state (db_with five_points)"
  let ?e = "event_example (JStr ''aapl'') (JNum 98)"
  have h: "5 \<le> length (points_for (db_state ?s) ''aapl'')"
    by (simp add: idle_state_def points_for_def db_with_def five_points_def point_def upper_AAPL)
  have v: "calculate_moving_average (db_state ?s) ''aapl'' = Some 100"
    by (simp add: calculate_moving_average_def idle_state_def get_last_n_prices_def given_def
        order_by_desc_def db_with_def five_points_def point_def upper_AAPL)
  have m: "moving_averages (db_state ?s) = []"
    by (simp add: idle_state_def db_with_def)
  have "\<exists>x. calculate_moving_average (db_state ?s) ''aapl'' = Some x \<and>
      moving_averages (db_state (process_price_event iso_example (JObj ?e) 1710930602000000
        (process_price_event iso_example (JObj ?e) 1710930601000000 ?s))) =
      moving_averages (db_state ?s) @
       [\<lparr>ma_symbol = upper ''aapl'', ma_moving_average = x, ma_period = 5,
         ma_timestamp = 1710930601000000\<rparr>,
        \<lparr>ma_symbol = upper ''aapl'', ma_moving_average = x, ma_period = 5,
         ma_timestamp = 1710930602000000\<rparr>]"
    using redelivery_appends_equal_values [of iso_example "JObj ?e" 1710930602000000
      1710930601000000 ?s ?e "''aapl''" 1710930600000000, THEN conjunct2, THEN conjunct2]
      wf_example h by simp
  with v m
  have "moving_averages (db_state (process_price_event iso_example (JObj ?e) 1710930602000000
      (process_price_event iso_example (JObj ?e) 1710930601000000 ?s))) =
     [\<lparr>ma_symbol = ''AAPL'', ma_moving_average = 100, ma_period = 5,
       ma_timestamp = 1710930601000000\<rparr>,
      \<lparr>ma_symbol = ''AAPL'', ma_moving_average = 100, ma_period = 5,
       ma_timestamp = 1710930602000000\<rparr>]"
    by (auto simp add: upper_AAPL)
  with wf_example h show ?thesis by simp
qed

section \<open>The price service\<close>

lemma dal_get_latest_price_pair:
  assumes "provider \<noteq> []"
  shows "dal_get_latest_price d (upper symbol) (Some provider) =
           first (order_by_desc pp_timestamp (pair_points d symbol provider))"
proof -
  have "filter (\<lambda>p. Some (pp_provider p) = Some provider)
          (filter (\<lambda>p. pp_symbol p = upper symbol) (processed_price_points d)) =
        pair_points d symbol provider"
    by (simp add: pair_points_def conj_commute)
  with assms show ?thesis
    by (simp add: dal_get_latest_price_def given_def upper_idem)
qed

lemma get_latest_price_resolved:
  assumes "get_provider s provider = Inr provider_instance"
  shows "get_latest_price symbol provider db use_cache utcnow s =
     (case (if use_cache \<and> db
            then dal_get_latest_price (db_state s) (upper symbol) (Some (pv_name provider_instance))
            else None) of
        Some rp \<Rightarrow>
          if pp_timestamp rp > utcnow - minutes 5 then (Inr (cache_entry rp), s)
          else fetch_live provider_instance (upper symbol) db utcnow s
      | None \<Rightarrow> fetch_live provider_instance (upper symbol) db utcnow s)"
  using assms by (simp add: get_latest_price_def Let_def cache_entry_def split: option.splits)

lemma get_latest_price_unresolved:
  assumes "get_provider s provider = Inl e"
  shows "get_latest_price symbol provider db use_cache utcnow s = (Inl e, s)"
  using assms by (simp add: get_latest_price_def)

lemma get_latest_price_cases:
  assumes "get_provider s provider = Inr provider_instance"
  shows "(\<exists>rp. get_latest_price symbol provider db use_cache utcnow s = (Inr (cache_entry rp), s)) \<or>
         get_latest_price symbol provider db use_cache utcnow s =
           fetch_live provider_instance (upper symbol) db utcnow s"
  unfolding get_latest_price_resolved [OF assms]
  by (auto split: option.splits)

lemma publish_price_event_calls:
  "provider_calls (snd (publish_price_event symbol price timestamp provider rid s)) = provider_calls s"
  by (simp add: publish_price_event_def split: producer_handle.splits)

lemma fetch_live_calls:
  "provider_calls (snd (fetch_live p symbol db utcnow s)) = provider_calls s @ [(pv_name p, symbol)]"
  by (simp add: fetch_live_def Let_def publish_price_event_calls split_beta
      save_raw_market_data_def save_price_point_def split: sum.splits)

lemma fetch_live_failure:
  assumes "pv_get_latest_price p (length (provider_calls s)) symbol = Inl e"
  shows "fetch_live p symbol db utcnow s =
           (Inl (ValueError (''Failed to get price for '' @ symbol @ '': '' @ str_exn e)),
            s\<lparr>provider_calls := provider_calls s @ [(pv_name p, symbol)]\<rparr>)"
  using assms by (simp add: fetch_live_def Let_def)

lemma get_provider_example:
  "get_provider (service_state d kafka) None = Inr example_provider"
  "get_provider (service_state d kafka) (Some ''alpha_vantage'') = Inr example_provider"
  by (simp_all add: get_provider_def service_state_def initialize_providers_def
      AlphaVantageProvider_def example_provider_def str_or_def DEFAULT_PROVIDER_def)

lemma example_provider_AAPL:
  "pv_get_latest_price example_provider n ''AAPL'' =
     Inr \<lparr>rs_symbol = ''AAPL'', rs_price = 150.25, rs_timestamp = example_clock n,
          rs_provider = ''alphavantage'',
          rs_raw_response = JObj [(''Global Quote'', JObj [(''01. symbol'', JStr ''AAPL''),
                                                         (''05. price'', JStr ''150.25'')])]\<rparr>"
  by (simp add: example_provider_def alpha_vantage_get_latest_price_def alpha_vantage_quote_def
      example_http_def example_float_def format_response_def upper_AAPL Let_def)

lemma upper_MSFT: "upper ''MSFT'' = ''MSFT''" "upper ''msft'' = ''MSFT''"
  by code_simp+

lemma example_provider_MSFT:
  "pv_get_latest_price example_provider n ''MSFT'' =
     Inl (ValueError ''Unexpected error: Alpha Vantage API rate limit exceeded'')"
  by (simp add: example_provider_def alpha_vantage_get_latest_price_def alpha_vantage_quote_def
      example_http_def upper_MSFT)

text \<open>
  C1. Let the requested provider resolve to an instance (its name, the class name
  without \<^verbatim>\<open>provider\<close>, is not empty); a name that is not registered raises before
  anything else is done (\<open>get_latest_price_unresolved\<close>), and the stored rows carry the
  name of the instance. If the cache is allowed, a session is given and
  some stored price point of the upper-cased symbol and this provider has a timestamp
  later than five minutes before now, then \<^verbatim>\<open>get_latest_price\<close> returns the latest such
  point tagged \<^verbatim>\<open>cache\<close> and the state is the one before the call: no provider call, no
  new row, no event. If \<^verbatim>\<open>use_cache\<close> is false, the provider is called once with the
  upper-cased symbol, whatever is stored.
\<close>

theorem cache_hit_and_forced_fetch:
  assumes "get_provider s provider = Inr provider_instance"
    and "pv_name provider_instance \<noteq> []"
  shows "(use_cache \<and> db \<and>
          (\<exists>p\<in>set (pair_points (db_state s) symbol (pv_name provider_instance)).
              utcnow - minutes 5 < pp_timestamp p) \<longrightarrow>
          (\<exists>rp\<in>set (pair_points (db_state s) symbol (pv_name provider_instance)).
              utcnow - minutes 5 < pp_timestamp rp \<and>
              (\<forall>q\<in>set (pair_points (db_state s) symbol (pv_name provider_instance)).
                  pp_timestamp q \<le> pp_timestamp rp) \<and>
              get_latest_price symbol provider db use_cache utcnow s = (Inr (cache_entry rp), s))) \<and>
         (\<not> use_cache \<longrightarrow>
            provider_calls (snd (get_latest_price symbol provider db use_cache utcnow s)) =
              provider_calls s @ [(pv_name provider_instance, upper symbol)])"
proof (intro conjI impI)
  let ?pts = "pair_points (db_state s) symbol (pv_name provider_instance)"
  assume h: "use_cache \<and> db \<and> (\<exists>p\<in>set ?pts. utcnow - minutes 5 < pp_timestamp p)"
  then obtain p where p: "p \<in> set ?pts" "utcnow - minutes 5 < pp_timestamp p" by blast
  then have "?pts \<noteq> []" by auto
  then have "order_by_desc pp_timestamp ?pts \<noteq> []"
    by (simp add: order_by_desc_Nil)
  then obtain rp where rp: "first (order_by_desc pp_timestamp ?pts) = Some rp"
    by (cases "first (order_by_desc pp_timestamp ?pts)") (simp_all add: first_None)
  from first_order_by_desc_max [OF rp]
  have mem: "rp \<in> set ?pts" and mx: "\<forall>q\<in>set ?pts. pp_timestamp q \<le> pp_timestamp rp"
    by simp_all
  from mx p have fresh: "utcnow - minutes 5 < pp_timestamp rp" by fastforce
  have look: "dal_get_latest_price (db_state s) (upper symbol) (Some (pv_name provider_instance)) =
      Some rp"
    using rp by (simp add: dal_get_latest_price_pair [OF assms(2)])
  have "get_latest_price symbol provider db use_cache utcnow s = (Inr (cache_entry rp), s)"
    unfolding get_latest_price_resolved [OF assms(1)] using h look fresh by simp
  with mem fresh mx
  show "\<exists>rp\<in>set ?pts. utcnow - minutes 5 < pp_timestamp rp \<and>
          (\<forall>q\<in>set ?pts. pp_timestamp q \<le> pp_timestamp rp) \<and>
          get_latest_price symbol provider db use_cache utcnow s = (Inr (cache_entry rp), s)"
    by blast
next
  assume "\<not> use_cache"
  then have "get_latest_price symbol provider db use_cache utcnow s =
      fetch_live provider_instance (upper symbol) db utcnow s"
    unfolding get_latest_price_resolved [OF assms(1)] by simp
  then show "provider_calls (snd (get_latest_price symbol provider db use_cache utcnow s)) =
      provider_calls s @ [(pv_name provider_instance, upper symbol)]"
    by (simp add: fetch_live_calls)
qed

lemma name_example: "pv_name example_provider = ''alphavantage''"
  by (simp add: example_provider_def)

lemma pair_points_example:
  "pair_points (db_state (service_state (db_with [cached_point]) ProducerUp)) ''aapl''
     ''alphavantage'' = [cached_point]"
  by (simp add: pair_points_def service_state_def db_with_def cached_point_def upper_AAPL)

theorem cache_hit_and_forced_fetch_witness:
  "get_provider (service_state (db_with [cached_point]) ProducerUp) None = Inr example_provider \<and>
   pv_name example_provider \<noteq> [] \<and>
   cached_point \<in> set (pair_points (db_state (service_state (db_with [cached_point]) ProducerUp))
                          ''aapl'' (pv_name example_provider)) \<and>
   1710930600000000 - minutes 5 < pp_timestamp cached_point \<and>
   get_latest_price ''aapl'' None True True 1710930600000000
       (service_state (db_with [cached_point]) ProducerUp) =
     (Inr (cache_entry cached_point), service_state (db_with [cached_point]) ProducerUp) \<and>
   provider_calls (snd (get_latest_price ''aapl'' None True False 1710930600000000
       (service_state (db_with [cached_point]) ProducerUp))) = [(''alphavantage'', ''AAPL'')]"
proof -
  let ?s = "service_state (db_with [cached_point]) ProducerUp"
  have g: "get_provider ?s None = Inr example_provider"
    by (rule get_provider_example)
  have n: "pv_name example_provider \<noteq> []"
    by (simp add: name_example)
  have pts: "pair_points (db_state ?s) ''aapl'' (pv_name example_provider) = [cached_point]"
    by (simp add: name_example pair_points_example)
  have fresh: "1710930600000000 - minutes 5 < pp_timestamp cached_point"
    by (simp add: minutes_def cached_point_def)
  have calls: "provider_calls ?s = []"
    by (simp add: service_state_def)
  from cache_hit_and_forced_fetch [OF g n, of True True "''aapl''" 1710930600000000] pts fresh
  have hit: "get_latest_price ''aapl'' None True True 1710930600000000 ?s =
      (Inr (cache_entry cached_point), ?s)"
    by simp
  from cache_hit_and_forced_fetch [OF g n, of False True "''aapl''" 1710930600000000] calls
  have forced: "provider_calls (snd (get_latest_price ''aapl'' None True False 1710930600000000 ?s)) =
      [(''alphavantage'', ''AAPL'')]"
    by (simp add: name_example upper_AAPL)
  from g n pts fresh hit forced show ?thesis by simp
qed

lemma get_latest_price_invoked:
  assumes g: "get_provider s provider = Inr provider_instance"
    and "provider_calls (snd (get_latest_price symbol provider db use_cache utcnow s)) \<noteq>
         provider_calls s"
  shows "get_latest_price symbol provider db use_cache utcnow s =
           fetch_live provider_instance (upper symbol) db utcnow s"
  using get_latest_price_cases [OF g, of symbol db use_cache utcnow] assms(2) by auto

lemma alpha_vantage_rate_limited:
  assumes "map_of (rev data) ''Error Message'' = None" and "map_of (rev data) ''Note'' \<noteq> None"
  shows "alpha_vantage_get_latest_price str_float (HttpJson data) now symbol =
           Inl (ValueError ''Unexpected error: Alpha Vantage API rate limit exceeded'')"
  using assms by (simp add: alpha_vantage_get_latest_price_def alpha_vantage_quote_def)

text \<open>
  C7. When a call of \<^verbatim>\<open>get_latest_price\<close> invokes the provider and the provider raises,
  the call raises a \<^verbatim>\<open>ValueError\<close> whose text names the symbol and the provider's
  error, and the state differs from the one before only by the recorded provider call:
  no raw response, no price point, no event. A rate-limit reply of Alpha Vantage (a
  \<^verbatim>\<open>Note\<close> in the body) is such a failure.
\<close>

theorem provider_failure_nothing_persisted:
  assumes "get_provider s provider = Inr provider_instance"
    and "provider_calls (snd (get_latest_price symbol provider db use_cache utcnow s)) \<noteq>
         provider_calls s"
    and "pv_get_latest_price provider_instance (length (provider_calls s)) (upper symbol) = Inl e"
  shows "get_latest_price symbol provider db use_cache utcnow s =
           (Inl (ValueError (''Failed to get price for '' @ upper symbol @ '': '' @ str_exn e)),
            s\<lparr>provider_calls := provider_calls s @ [(pv_name provider_instance, upper symbol)]\<rparr>) \<and>
         db_state (snd (get_latest_price symbol provider db use_cache utcnow s)) = db_state s \<and>
         price_events (snd (get_latest_price symbol provider db use_cache utcnow s)) = price_events s \<and>
         (map_of (rev data) ''Error Message'' = None \<and> map_of (rev data) ''Note'' \<noteq> None \<longrightarrow>
            alpha_vantage_get_latest_price str_float (HttpJson data) now symbol =
              Inl (ValueError ''Unexpected error: Alpha Vantage API rate limit exceeded''))"
proof -
  have "get_latest_price symbol provider db use_cache utcnow s =
      fetch_live provider_instance (upper symbol) db utcnow s"
    using assms(1,2) by (rule get_latest_price_invoked)
  then have r: "get_latest_price symbol provider db use_cache utcnow s =
           (Inl (ValueError (''Failed to get price for '' @ upper symbol @ '': '' @ str_exn e)),
            s\<lparr>provider_calls := provider_calls s @ [(pv_name provider_instance, upper symbol)]\<rparr>)"
    by (simp add: fetch_live_failure [OF assms(3)])
  then show ?thesis
    by (simp add: alpha_vantage_rate_limited)
qed

theorem provider_failure_nothing_persisted_witness:
  "get_provider (service_state (db_with [cached_point]) ProducerUp) None = Inr example_provider \<and>
   pv_get_latest_price example_provider
      (length (provider_calls (service_state (db_with [cached_point]) ProducerUp))) (upper ''msft'') =
     Inl (ValueError ''Unexpected error: Alpha Vantage API rate limit exceeded'') \<and>
   get_latest_price ''msft'' None True True 1710930600000000
       (service_state (db_with [cached_point]) ProducerUp) =
     (Inl (ValueError
        ''Failed to get price for MSFT: Unexpected error: Alpha Vantage API rate limit exceeded''),
      (service_state (db_with [cached_point]) ProducerUp)
        \<lparr>provider_calls := [(''alphavantage'', ''MSFT'')]\<rparr>)"
proof -
  let ?s = "service_state (db_with [cached_point]) ProducerUp"
  have g: "get_provider ?s None = Inr example_provider"
    by (rule get_provider_example)
  have f: "pv_get_latest_price example_provider (length (provider_calls ?s)) (upper ''msft'') =
      Inl (ValueError ''Unexpected error: Alpha Vantage API rate limit exceeded'')"
    by (simp add: upper_MSFT example_provider_MSFT)
  have calls: "provider_calls ?s = []"
    by (simp add: service_state_def)
  have miss: "dal_get_latest_price (db_state ?s) (upper ''msft'') (Some (pv_name example_provider))
      = None"
    by (simp add: dal_get_latest_price_def given_def name_example service_state_def db_with_def
        cached_point_def upper_MSFT order_by_desc_def first_def)
  have "get_latest_price ''msft'' None True True 1710930600000000 ?s =
      fetch_live example_provider (upper ''msft'') True 1710930600000000 ?s"
    unfolding get_latest_price_resolved [OF g] using miss by simp
  then have inv: "provider_calls (snd (get_latest_price ''msft'' None True True 1710930600000000 ?s))
      \<noteq> provider_calls ?s"
    by (simp add: fetch_live_calls)
  from provider_failure_nothing_persisted [OF g inv f] calls
  have "get_latest_price ''msft'' None True True 1710930600000000 ?s =
     (Inl (ValueError
        ''Failed to get price for MSFT: Unexpected error: Alpha Vantage API rate limit exceeded''),
      ?s\<lparr>provider_calls := [(''alphavantage'', ''MSFT'')]\<rparr>)"
    by (simp add: upper_MSFT name_example)
  with g f show ?thesis by simp
qed

lemma publish_price_event_down:
  assumes "producer s \<noteq> ProducerUp"
  shows "publish_price_event symbol price timestamp provider rid s = (False, s)"
  using assms by (cases "producer s") (simp_all add: publish_price_event_def)

lemma fetch_live_unpublished:
  assumes "pv_get_latest_price p (length (provider_calls s)) symbol = Inr result"
    and "producer s \<noteq> ProducerUp"
  shows "fetch_live p symbol True utcnow s =
     (Inr \<lparr>pd_symbol = rs_symbol result, pd_price = rs_price result,
            pd_timestamp = rs_timestamp result, pd_provider = rs_provider result,
            pd_raw_response = Some (rs_raw_response result), pd_source = ''live''\<rparr>,
      s\<lparr>provider_calls := provider_calls s @ [(pv_name p, symbol)],
        db_state := (db_state s)
          \<lparr>raw_market_data := raw_market_data (db_state s) @
             [\<lparr>rmd_id = length (raw_market_data (db_state s)), rmd_symbol = upper symbol,
               rmd_provider = pv_name p, rmd_raw_response = rs_raw_response result,
               rmd_timestamp = utcnow\<rparr>],
           processed_price_points := processed_price_points (db_state s) @
             [\<lparr>pp_id = length (processed_price_points (db_state s)), pp_symbol = upper symbol,
               pp_price = rs_price result, pp_timestamp = rs_timestamp result,
               pp_provider = pv_name p,
               pp_raw_response_id = length (raw_market_data (db_state s))\<rparr>]\<rparr>\<rparr>)"
  using assms
  by (simp add: fetch_live_def Let_def save_raw_market_data_def save_price_point_def
      publish_price_event_down)

text \<open>
  C8. When a call of \<^verbatim>\<open>get_latest_price\<close> with a session invokes the provider, the
  provider answers, and the Kafka producer is missing or its \<^verbatim>\<open>produce\<close> raises, the
  call still returns the live price: the raw response and the price point that refers
  to it are appended to the store and stay there, and no event is added to the topic
  (the failure is not passed on and the publish is not tried again).
\<close>

theorem publish_failure_swallowed:
  assumes "get_provider s provider = Inr provider_instance"
    and "provider_calls (snd (get_latest_price symbol provider True use_cache utcnow s)) \<noteq>
         provider_calls s"
    and "pv_get_latest_price provider_instance (length (provider_calls s)) (upper symbol) =
         Inr result"
    and "producer s \<noteq> ProducerUp"
  shows "fst (get_latest_price symbol provider True use_cache utcnow s) =
           Inr \<lparr>pd_symbol = rs_symbol result, pd_price = rs_price result,
                pd_timestamp = rs_timestamp result, pd_provider = rs_provider result,
                pd_raw_response = Some (rs_raw_response result), pd_source = ''live''\<rparr> \<and>
         raw_market_data (db_state (snd (get_latest_price symbol provider True use_cache utcnow s))) =
           raw_market_data (db_state s) @
             [\<lparr>rmd_id = length (raw_market_data (db_state s)), rmd_symbol = upper symbol,
               rmd_provider = pv_name provider_instance,
               rmd_raw_response = rs_raw_response result, rmd_timestamp = utcnow\<rparr>] \<and>
         processed_price_points
             (db_state (snd (get_latest_price symbol provider True use_cache utcnow s))) =
           processed_price_points (db_state s) @
             [\<lparr>pp_id = length (processed_price_points (db_state s)), pp_symbol = upper symbol,
               pp_price = rs_price result, pp_timestamp = rs_timestamp result,
               pp_provider = pv_name provider_instance,
               pp_raw_response_id = length (raw_market_data (db_state s))\<rparr>] \<and>
         price_events (snd (get_latest_price symbol provider True use_cache utcnow s)) =
           price_events s"
proof -
  have "get_latest_price symbol provider True use_cache utcnow s =
      fetch_live provider_instance (upper symbol) True utcnow s"
    using assms(1,2) by (rule get_latest_price_invoked)
  then show ?thesis
    by (simp add: fetch_live_unpublished [OF assms(3,4)] upper_idem)
qed

theorem publish_failure_swallowed_witness:
  "get_provider (service_state (db_with []) ProducerRaising) None = Inr example_provider \<and>
   producer (service_state (db_with []) ProducerRaising) \<noteq> ProducerUp \<and>
   provider_calls (snd (get_latest_price ''aapl'' None True True 1710930600000000
       (service_state (db_with []) ProducerRaising))) = [(''alphavantage'', ''AAPL'')] \<and>
   fst (get_latest_price ''aapl'' None True True 1710930600000000
       (service_state (db_with []) ProducerRaising)) =
     Inr \<lparr>pd_symbol = ''AAPL'', pd_price = 150.25, pd_timestamp = 1710930600000000,
          pd_provider = ''alphavantage'',
          pd_raw_response = Some (JObj [(''Global Quote'', JObj [(''01. symbol'', JStr ''AAPL''),
                                                        (''05. price'', JStr ''150.25'')])]),
          pd_source = ''live''\<rparr> \<and>
   processed_price_points (db_state (snd (get_latest_price ''aapl'' None True True 1710930600000000
       (service_state (db_with []) ProducerRaising)))) =
     [\<lparr>pp_id = 0, pp_symbol = ''AAPL'', pp_price = 150.25, pp_timestamp = 1710930600000000,
       pp_provider = ''alphavantage'', pp_raw_response_id = 0\<rparr>] \<and>
   map rmd_symbol (raw_market_data (db_state (snd (get_latest_price ''aapl'' None True True
       1710930600000000 (service_state (db_with []) ProducerRaising))))) = [''AAPL''] \<and>
   price_events (snd (get_latest_price ''aapl'' None True True 1710930600000000
       (service_state (db_with []) ProducerRaising))) = []"
proof -
  let ?s = "service_state (db_with []) ProducerRaising"
  let ?r = "get_latest_price ''aapl'' None True True 1710930600000000 ?s"
  have g: "get_provider ?s None = Inr example_provider"
    by (rule get_provider_example)
  have k: "producer ?s \<noteq> ProducerUp"
    by (simp add: service_state_def)
  have calls: "provider_calls ?s = []" and ev: "price_events ?s = []"
    and raw: "raw_market_data (db_state ?s) = []"
    and pts: "processed_price_points (db_state ?s) = []"
    by (simp_all add: service_state_def db_with_def)
  have f: "pv_get_latest_price example_provider (length (provider_calls ?s)) (upper ''aapl'') =
      Inr \<lparr>rs_symbol = ''AAPL'', rs_price = 150.25, rs_timestamp = 1710930600000000,
          rs_provider = ''alphavantage'',
          rs_raw_response = JObj [(''Global Quote'', JObj [(''01. symbol'', JStr ''AAPL''),
                                                         (''05. price'', JStr ''150.25'')])]\<rparr>"
    by (simp add: calls upper_AAPL example_provider_AAPL example_clock_def)
  have miss: "dal_get_latest_price (db_state ?s) (upper ''aapl'') (Some (pv_name example_provider))
      = None"
    by (simp add: dal_get_latest_price_def given_def pts order_by_desc_def first_def)
  have live: "?r = fetch_live example_provider (upper ''aapl'') True 1710930600000000 ?s"
    unfolding get_latest_price_resolved [OF g] using miss by simp
  then have c: "provider_calls (snd ?r) = [(''alphavantage'', ''AAPL'')]"
    by (simp add: fetch_live_calls calls name_example upper_AAPL)
  then have inv: "provider_calls (snd ?r) \<noteq> provider_calls ?s"
    by (simp add: calls)
  from publish_failure_swallowed [OF g inv f k]
  have "fst ?r =
     Inr \<lparr>pd_symbol = ''AAPL'', pd_price = 150.25, pd_timestamp = 1710930600000000,
          pd_provider = ''alphavantage'',
          pd_raw_response = Some (JObj [(''Global Quote'', JObj [(''01. symbol'', JStr ''AAPL''),
                                                        (''05. price'', JStr ''150.25'')])]),
          pd_source = ''live''\<rparr> \<and>
     processed_price_points (db_state (snd ?r)) =
       [\<lparr>pp_id = 0, pp_symbol = ''AAPL'', pp_price = 150.25, pp_timestamp = 1710930600000000,
         pp_provider = ''alphavantage'', pp_raw_response_id = 0\<rparr>] \<and>
     map rmd_symbol (raw_market_data (db_state (snd ?r))) = [''AAPL''] \<and>
     price_events (snd ?r) = []"
    by (simp add: raw pts ev name_example upper_AAPL)
  with g k c show ?thesis by simp
qed

section \<open>Starting a polling job\<close>

lemma parse_PollRequest_out_of_bounds:
  assumes "pb_interval body = Some interval" and "interval < 30 \<or> 3600 < interval"
  shows "parse_PollRequest body = Inl RequestValidationError"
  using assms by (auto simp add: parse_PollRequest_def split: sum.splits)

lemma start_polling_out_of_bounds:
  assumes "pb_interval body = Some interval" and "interval < 30 \<or> 3600 < interval"
  shows "start_polling body job_id utcnow s = (Inl RequestValidationError, s)"
  by (simp add: start_polling_def parse_PollRequest_out_of_bounds [OF assms])

lemma validate_symbols_ok:
  assumes "list_all (\<lambda>symbol. symbol \<noteq> [] \<and> length symbol \<le> 10 \<and> isalpha symbol) v"
  shows "validate_symbols v = Inr (map upper v)"
proof -
  have "find (\<lambda>symbol. symbol = [] \<or> length symbol > 10 \<or> \<not> isalpha symbol) v = None"
    using assms by (auto simp add: find_None_iff list_all_iff)
  then show ?thesis by (simp add: validate_symbols_def)
qed

lemma parse_PollRequest_ok:
  assumes "acceptable_symbols_and_provider body" and "pb_interval body = Some interval"
    and "30 \<le> interval" and "interval \<le> 3600"
  shows "parse_PollRequest body =
           Inr \<lparr>rq_symbols = map upper (pb_symbols body), rq_interval = interval,
                rq_provider = pb_provider body\<rparr>"
  using assms
  by (auto simp add: parse_PollRequest_def acceptable_symbols_and_provider_def validate_symbols_ok
      split: option.splits)

lemma validate_each_upper:
  assumes "list_all (\<lambda>symbol. symbol \<noteq> [] \<and> length symbol \<le> 10 \<and> isalpha symbol) v"
  shows "validate_each (map upper v) = Inr (map (\<lambda>symbol. strip (upper symbol)) v)"
  using assms
proof (induction v)
  case Nil
  then show ?case by simp
next
  case (Cons a v)
  then have "upper a \<noteq> []" and "length (upper a) \<le> 10"
    by (simp_all add: upper_def)
  with Cons show ?case
    by (simp add: validate_symbol_def upper_idem)
qed

lemma start_polling_job_fresh:
  assumes "polling_job_configs (db_state s) job_id = None"
  shows "start_polling_job symbols interval provider True job_id utcnow s =
     (Inr job_id,
      s\<lparr>db_state := (db_state s)\<lparr>polling_job_configs := (polling_job_configs (db_state s))
            (job_id \<mapsto> \<lparr>pj_job_id = job_id, pj_symbols = symbols, pj_interval = interval,
                          pj_provider = str_or provider DEFAULT_PROVIDER, pj_status = ''active'',
                          pj_created_at = utcnow, pj_updated_at = utcnow, pj_last_run = None,
                          pj_next_run = Some utcnow, pj_error_message = None\<rparr>)\<rparr>,
        polling_jobs := (polling_jobs s)
            (job_id \<mapsto> \<lparr>jc_job_id = job_id, jc_symbols = symbols, jc_interval = interval,
                          jc_provider = str_or provider DEFAULT_PROVIDER, jc_status = ''active'',
                          jc_created_at = utcnow, jc_last_run = None, jc_next_run = utcnow\<rparr>),
        tasks := tasks s @ [job_id]\<rparr>)"
  using assms by (simp add: start_polling_job_def save_polling_job_def Let_def)

lemma start_polling_in_bounds:
  assumes "acceptable_symbols_and_provider body" and "pb_interval body = Some interval"
    and "30 \<le> interval" and "interval \<le> 3600"
    and "polling_job_configs (db_state s) job_id = None"
  shows "\<exists>response s'. start_polling body job_id utcnow s = (Inr response, s') \<and>
           po_job_id response = job_id \<and> po_interval response = interval \<and>
           polling_job_configs (db_state s') job_id = Some (new_job job_id body interval utcnow) \<and>
           tasks s' = tasks s @ [job_id]"
proof -
  from assms(1) have l: "list_all (\<lambda>symbol. symbol \<noteq> [] \<and> length symbol \<le> 10 \<and> isalpha symbol)
      (pb_symbols body)"
    by (simp add: acceptable_symbols_and_provider_def)
  show ?thesis
    by (simp add: start_polling_def parse_PollRequest_ok [OF assms(1-4)]
        validate_each_upper [OF l] start_polling_job_fresh [OF assms(5)] new_job_def)
qed

text \<open>
  C6. A poll request with interval 29 or 3601 fails the validation of the request, and
  the state is the one before: no job is saved and no worker task is created. With
  interval 30 or 3600, symbols and provider that the schema accepts and a job
  identifier not yet in the store, the request succeeds: the job is saved as active
  with \<^verbatim>\<open>next_run\<close> now, and one worker task is created.
\<close>

theorem start_polling_interval_bounds:
  "(pb_interval body = Some 29 \<or> pb_interval body = Some 3601 \<longrightarrow>
      start_polling body job_id utcnow s = (Inl RequestValidationError, s)) \<and>
   ((pb_interval body = Some 30 \<or> pb_interval body = Some 3600) \<and>
    acceptable_symbols_and_provider body \<and> polling_job_configs (db_state s) job_id = None \<longrightarrow>
      (\<exists>response s'. start_polling body job_id utcnow s = (Inr response, s') \<and>
         po_job_id response = job_id \<and>
         polling_job_configs (db_state s') job_id =
           Some (new_job job_id body (the (pb_interval body)) utcnow) \<and>
         tasks s' = tasks s @ [job_id]))"
proof (intro conjI impI)
  assume "pb_interval body = Some 29 \<or> pb_interval body = Some 3601"
  then show "start_polling body job_id utcnow s = (Inl RequestValidationError, s)"
    by (auto intro: start_polling_out_of_bounds)
next
  assume h: "(pb_interval body = Some 30 \<or> pb_interval body = Some 3600) \<and>
    acceptable_symbols_and_provider body \<and> polling_job_configs (db_state s) job_id = None"
  then consider "pb_interval body = Some 30" | "pb_interval body = Some 3600" by blast
  then show "\<exists>response s'. start_polling body job_id utcnow s = (Inr response, s') \<and>
         po_job_id response = job_id \<and>
         polling_job_configs (db_state s') job_id =
           Some (new_job job_id body (the (pb_interval body)) utcnow) \<and>
         tasks s' = tasks s @ [job_id]"
  proof cases
    case 1
    from start_polling_in_bounds [of body 30 s job_id utcnow] h 1 show ?thesis by auto
  next
    case 2
    from start_polling_in_bounds [of body 3600 s job_id utcnow] h 2 show ?thesis by auto
  qed
qed

lemma acceptable_example: "acceptable_symbols_and_provider (poll_body_example interval)"
proof -
  have "isalpha ''aapl''" and "isalpha ''MSFT''" by code_simp+
  then show ?thesis
    by (simp add: acceptable_symbols_and_provider_def poll_body_example_def)
qed

lemma new_job_symbols_example:
  "pj_symbols (new_job job_id (poll_body_example interval) interval utcnow) = [''AAPL'', ''MSFT'']"
proof -
  have "map (\<lambda>symbol. strip (upper symbol)) [''aapl'', ''MSFT''] = [''AAPL'', ''MSFT'']"
    by code_simp
  then show ?thesis
    by (simp add: new_job_def poll_body_example_def)
qed

theorem start_polling_interval_bounds_witness:
  "start_polling (poll_body_example 29) ''poll_a1b2c3d4'' 1710930600000000
      (service_state (db_with []) ProducerUp) =
     (Inl RequestValidationError, service_state (db_with []) ProducerUp) \<and>
   start_polling (poll_body_example 3601) ''poll_a1b2c3d4'' 1710930600000000
      (service_state (db_with []) ProducerUp) =
     (Inl RequestValidationError, service_state (db_with []) ProducerUp) \<and>
   acceptable_symbols_and_provider (poll_body_example 30) \<and>
   acceptable_symbols_and_provider (poll_body_example 3600) \<and>
   polling_job_configs (db_state (service_state (db_with []) ProducerUp)) ''poll_a1b2c3d4'' = None \<and>
   (\<exists>response s'. start_polling (poll_body_example 30) ''poll_a1b2c3d4'' 1710930600000000
         (service_state (db_with []) ProducerUp) = (Inr response, s') \<and>
       po_job_id response = ''poll_a1b2c3d4'' \<and>
       polling_job_configs (db_state s') ''poll_a1b2c3d4'' =
         Some (new_job ''poll_a1b2c3d4'' (poll_body_example 30) 30 1710930600000000) \<and>
       tasks s' = [''poll_a1b2c3d4'']) \<and>
   (\<exists>response s'. start_polling (poll_body_example 3600) ''poll_a1b2c3d4'' 1710930600000000
         (service_state (db_with []) ProducerUp) = (Inr response, s') \<and>
       po_job_id response = ''poll_a1b2c3d4'' \<and>
       polling_job_configs (db_state s') ''poll_a1b2c3d4'' =
         Some (new_job ''poll_a1b2c3d4'' (poll_body_example 3600) 3600 1710930600000000) \<and>
       tasks s' = [''poll_a1b2c3d4''])"
proof -
  let ?s = "service_state (db_with []) ProducerUp"
  let ?j = "''poll_a1b2c3d4''"
  have i: "pb_interval (poll_body_example n) = Some n" for n
    by (simp add: poll_body_example_def)
  have fresh: "polling_job_configs (db_state ?s) ?j = None"
    by (simp add: service_state_def db_with_def)
  have t: "tasks ?s = []"
    by (simp add: service_state_def)
  have a: "start_polling (poll_body_example 29) ?j 1710930600000000 ?s =
      (Inl RequestValidationError, ?s)"
    using start_polling_interval_bounds [of "poll_body_example 29" ?j 1710930600000000 ?s]
    by (simp add: i)
  have b: "start_polling (poll_body_example 3601) ?j 1710930600000000 ?s =
      (Inl RequestValidationError, ?s)"
    using start_polling_interval_bounds [of "poll_body_example 3601" ?j 1710930600000000 ?s]
    by (simp add: i)
  have c: "\<exists>response s'. start_polling (poll_body_example 30) ?j 1710930600000000 ?s =
        (Inr response, s') \<and> po_job_id response = ?j \<and>
       polling_job_configs (db_state s') ?j =
         Some (new_job ?j (poll_body_example 30) 30 1710930600000000) \<and>
       tasks s' = [?j]"
    using start_polling_interval_bounds [of "poll_body_example 30" ?j 1710930600000000 ?s]
    by (simp add: i fresh t acceptable_example)
  have d: "\<exists>response s'. start_polling (poll_body_example 3600) ?j 1710930600000000 ?s =
        (Inr response, s') \<and> po_job_id response = ?j \<and>
       polling_job_configs (db_state s') ?j =
         Some (new_job ?j (poll_body_example 3600) 3600 1710930600000000) \<and>
       tasks s' = [?j]"
    using start_polling_interval_bounds [of "poll_body_example 3600" ?j 1710930600000000 ?s]
    by (simp add: i fresh t acceptable_example)
  from a b c d fresh acceptable_example show ?thesis by blast
qed

section \<open>The polling worker and stopping a job\<close>

lemma get_latest_price_forced:
  assumes "get_provider s provider = Inr provider_instance"
  shows "get_latest_price symbol provider db False utcnow s =
           fetch_live provider_instance (upper symbol) db utcnow s"
  unfolding get_latest_price_resolved [OF assms] by simp

lemma stop_polling_job_unknown:
  assumes "polling_jobs s job_id = None"
  shows "fst (stop_polling_job job_id True utcnow s) = True"
  using assms by (simp add: stop_polling_job_def Let_def)

lemma stop_polling_job_known:
  assumes "polling_job_configs (db_state s) job_id = Some job"
  shows "fst (stop_polling_job job_id True utcnow s) = True \<and>
         map_option pj_status
           (polling_job_configs (db_state (snd (stop_polling_job job_id True utcnow s))) job_id) =
           Some ''stopped''"
  using assms
  by (simp add: stop_polling_job_def update_polling_job_status_def get_polling_job_def Let_def
      given_def split: option.splits)

lemma polling_state_eq:
  "polling_state =
     (service_state (db_with []) ProducerUp)
       \<lparr>db_state := (db_with [])\<lparr>polling_job_configs :=
            [''poll_a1b2c3d4'' \<mapsto>
               \<lparr>pj_job_id = ''poll_a1b2c3d4'', pj_symbols = [''MSFT'', ''AAPL''], pj_interval = 60,
                pj_provider = ''alpha_vantage'', pj_status = ''active'',
                pj_created_at = 1710930600000000, pj_updated_at = 1710930600000000,
                pj_last_run = None, pj_next_run = Some 1710930600000000,
                pj_error_message = None\<rparr>]\<rparr>,
        polling_jobs :=
            [''poll_a1b2c3d4'' \<mapsto>
               \<lparr>jc_job_id = ''poll_a1b2c3d4'', jc_symbols = [''MSFT'', ''AAPL''], jc_interval = 60,
                jc_provider = ''alpha_vantage'', jc_status = ''active'',
                jc_created_at = 1710930600000000, jc_last_run = None,
                jc_next_run = 1710930600000000\<rparr>],
        tasks := [''poll_a1b2c3d4'']\<rparr>"
  by (simp add: polling_state_def start_polling_job_def save_polling_job_def service_state_def
      db_with_def str_or_def DEFAULT_PROVIDER_def Let_def)

lemma get_provider_polling_state:
  "get_provider polling_state (Some ''alpha_vantage'') = Inr example_provider"
  by (simp add: polling_state_eq get_provider_def service_state_def initialize_providers_def
      AlphaVantageProvider_def example_provider_def str_or_def DEFAULT_PROVIDER_def)

lemma fetch_live_frame:
  "providers (snd (fetch_live p symbol db utcnow s)) = providers s \<and>
   polling_jobs (snd (fetch_live p symbol db utcnow s)) = polling_jobs s"
  by (simp add: fetch_live_def publish_price_event_def Let_def split_beta
      split: sum.splits producer_handle.splits)

lemma get_latest_price_frame:
  "providers (snd (get_latest_price symbol provider db use_cache utcnow s)) = providers s \<and>
   polling_jobs (snd (get_latest_price symbol provider db use_cache utcnow s)) = polling_jobs s"
proof (cases "get_provider s provider")
  case (Inl e)
  then show ?thesis by (simp add: get_latest_price_def)
next
  case (Inr p)
  from get_latest_price_cases [OF Inr, of symbol db use_cache utcnow] show ?thesis
    by (auto simp add: fetch_live_frame)
qed

lemma get_provider_cong:
  "providers s' = providers s \<Longrightarrow> get_provider s' provider = get_provider s provider"
  by (simp add: get_provider_def)

lemma poll_symbols_polls_every_symbol:
  assumes "get_provider s (Some provider) = Inr provider_instance"
  shows "provider_calls (poll_symbols job_id provider db utcnow symbols s) =
           provider_calls s @ map (\<lambda>symbol. (pv_name provider_instance, upper symbol)) symbols \<and>
         polling_jobs (poll_symbols job_id provider db utcnow symbols s) = polling_jobs s"
  using assms
proof (induction symbols arbitrary: s)
  case Nil
  then show ?case by simp
next
  case (Cons symbol rest)
  let ?r = "get_latest_price symbol (Some provider) db False utcnow s"
  let ?s1 = "snd ?r"
  have live: "?r = fetch_live provider_instance (upper symbol) db utcnow s"
    using Cons.prems by (rule get_latest_price_forced)
  have calls: "provider_calls ?s1 = provider_calls s @ [(pv_name provider_instance, upper symbol)]"
    by (simp add: live fetch_live_calls)
  have frame: "providers ?s1 = providers s" "polling_jobs ?s1 = polling_jobs s"
    using get_latest_price_frame [of symbol "Some provider" db False utcnow s] by simp_all
  show ?case
  proof (cases "fst ?r")
    case (Inr price_data)
    then have step: "poll_symbols job_id provider db utcnow (symbol # rest) s =
        poll_symbols job_id provider db utcnow rest ?s1"
      by (simp add: case_prod_beta)
    have "get_provider ?s1 (Some provider) = Inr provider_instance"
      using Cons.prems frame(1) by (simp add: get_provider_cong [of ?s1 s])
    from Cons.IH [OF this] step calls frame(2) show ?thesis by simp
  next
    case (Inl e)
    let ?s2 = "if db then ?s1\<lparr>db_state := snd (update_polling_job_status (db_state ?s1) job_id
                   ''error'' (Some (str_exn e)) utcnow)\<rparr> else ?s1"
    from Inl have step: "poll_symbols job_id provider db utcnow (symbol # rest) s =
        poll_symbols job_id provider db utcnow rest ?s2"
      by (simp add: case_prod_beta)
    have prov2: "providers ?s2 = providers s" using frame(1) by (cases db) simp_all
    have jobs2: "polling_jobs ?s2 = polling_jobs s" using frame(2) by (cases db) simp_all
    have calls2: "provider_calls ?s2 = provider_calls ?s1" by (cases db) simp_all
    have "get_provider ?s2 (Some provider) = Inr provider_instance"
      using Cons.prems get_provider_cong [OF prov2, of "Some provider"] by simp
    from Cons.IH [OF this] step calls calls2 jobs2 show ?thesis by simp
  qed
qed

lemma fetch_live_jobs_table:
  "polling_job_configs (db_state (snd (fetch_live p symbol db utcnow s))) =
   polling_job_configs (db_state s)"
  by (simp add: fetch_live_def publish_price_event_def save_raw_market_data_def
      save_price_point_def Let_def split_beta split: sum.splits producer_handle.splits)

lemma get_latest_price_jobs_table:
  "polling_job_configs (db_state (snd (get_latest_price symbol provider db use_cache utcnow s))) =
   polling_job_configs (db_state s)"
proof (cases "get_provider s provider")
  case (Inl e)
  then show ?thesis by (simp add: get_latest_price_def)
next
  case (Inr p)
  from get_latest_price_cases [OF Inr, of symbol db use_cache utcnow] show ?thesis
    by (auto simp add: fetch_live_jobs_table)
qed

lemma update_polling_job_status_error:
  assumes "polling_job_configs d job_id = Some job"
  shows "\<exists>job'. polling_job_configs (snd (update_polling_job_status d job_id ''error'' msg utcnow))
            job_id = Some job' \<and> pj_status job' = ''error''"
  using assms by (simp add: update_polling_job_status_def get_polling_job_def Let_def)

lemma poll_symbols_step:
  "poll_symbols job_id provider True utcnow (symbol # rest) s =
     poll_symbols job_id provider True utcnow rest
       (case fst (get_latest_price symbol (Some provider) True False utcnow s) of
          Inr price_data \<Rightarrow> snd (get_latest_price symbol (Some provider) True False utcnow s)
        | Inl e \<Rightarrow>
            (snd (get_latest_price symbol (Some provider) True False utcnow s))
              \<lparr>db_state := snd (update_polling_job_status
                   (db_state (snd (get_latest_price symbol (Some provider) True False utcnow s)))
                   job_id ''error'' (Some (str_exn e)) utcnow)\<rparr>)"
  by (simp add: case_prod_beta split: sum.splits)

lemma poll_symbols_keeps_error:
  assumes "polling_job_configs (db_state s) job_id = Some job" and "pj_status job = ''error''"
  shows "\<exists>job'. polling_job_configs (db_state (poll_symbols job_id provider True utcnow symbols s))
            job_id = Some job' \<and> pj_status job' = ''error''"
  using assms
proof (induction symbols arbitrary: s job)
  case Nil
  then show ?case by simp
next
  case (Cons symbol rest)
  let ?r = "get_latest_price symbol (Some provider) True False utcnow s"
  have tbl: "polling_job_configs (db_state (snd ?r)) job_id = Some job"
    using Cons.prems(1) by (simp add: get_latest_price_jobs_table)
  show ?case
  proof (cases "fst ?r")
    case (Inr price_data)
    from Cons.IH [OF tbl Cons.prems(2)] Inr show ?thesis
      by (simp only: poll_symbols_step sum.case)
  next
    case (Inl e)
    from update_polling_job_status_error [OF tbl, of "Some (str_exn e)" utcnow]
    obtain job' where "polling_job_configs
        (db_state ((snd ?r)\<lparr>db_state := snd (update_polling_job_status (db_state (snd ?r)) job_id
             ''error'' (Some (str_exn e)) utcnow)\<rparr>)) job_id = Some job'"
      and "pj_status job' = ''error''"
      by auto
    from Cons.IH [OF this] Inl show ?thesis
      by (simp only: poll_symbols_step sum.case)
  qed
qed

lemma poll_symbols_failure_marks_error:
  assumes "get_provider s (Some provider) = Inr provider_instance"
    and "polling_job_configs (db_state s) job_id = Some job"
    and "i < length symbols"
    and "pv_get_latest_price provider_instance (length (provider_calls s) + i)
           (upper (symbols ! i)) = Inl e"
  shows "\<exists>job'. polling_job_configs (db_state (poll_symbols job_id provider True utcnow symbols s))
            job_id = Some job' \<and> pj_status job' = ''error''"
  using assms
proof (induction symbols arbitrary: s job i)
  case Nil
  then show ?case by simp
next
  case (Cons symbol rest)
  let ?r = "get_latest_price symbol (Some provider) True False utcnow s"
  let ?next = "case fst ?r of
          Inr price_data \<Rightarrow> snd ?r
        | Inl e \<Rightarrow> (snd ?r)\<lparr>db_state := snd (update_polling_job_status (db_state (snd ?r))
                       job_id ''error'' (Some (str_exn e)) utcnow)\<rparr>"
  have live: "?r = fetch_live provider_instance (upper symbol) True utcnow s"
    using Cons.prems(1) by (rule get_latest_price_forced)
  have tbl: "polling_job_configs (db_state (snd ?r)) job_id = Some job"
    using Cons.prems(2) by (simp add: get_latest_price_jobs_table)
  show ?case
  proof (cases i)
    case 0
    with Cons.prems(4) have "pv_get_latest_price provider_instance (length (provider_calls s))
        (upper symbol) = Inl e" by simp
    then have f: "fst ?r = Inl (ValueError (''Failed to get price for '' @ upper symbol @ '': '' @
        str_exn e))"
      by (simp add: live fetch_live_failure)
    from update_polling_job_status_error [OF tbl]
    obtain job' where "polling_job_configs (db_state ?next) job_id = Some job'"
      and "pj_status job' = ''error''"
      unfolding f by fastforce
    from poll_symbols_keeps_error [OF this] show ?thesis
      by (simp only: poll_symbols_step)
  next
    case (Suc j)
    have prov: "providers ?next = providers s"
      using get_latest_price_frame [of symbol "Some provider" True False utcnow s]
      by (simp split: sum.splits)
    have g: "get_provider ?next (Some provider) = Inr provider_instance"
      using Cons.prems(1) get_provider_cong [OF prov, of "Some provider"] by simp
    have calls: "provider_calls ?next =
        provider_calls s @ [(pv_name provider_instance, upper symbol)]"
      by (simp add: live fetch_live_calls split: sum.splits)
    have "\<exists>job'. polling_job_configs (db_state ?next) job_id = Some job'"
    proof (cases "fst ?r")
      case (Inr price_data)
      with tbl show ?thesis by simp
    next
      case (Inl e')
      with update_polling_job_status_error [OF tbl, of "Some (str_exn e')" utcnow]
      show ?thesis by auto
    qed
    then obtain job' where t: "polling_job_configs (db_state ?next) job_id = Some job'" by blast
    have j: "j < length rest" using Cons.prems(3) Suc by simp
    have o: "pv_get_latest_price provider_instance (length (provider_calls ?next) + j)
        (upper (rest ! j)) = Inl e"
      using Cons.prems(4) Suc by (simp add: calls)
    from Cons.IH [OF g t j o] show ?thesis
      by (simp only: poll_symbols_step)
  qed
qed

lemma poll_symbols_jobs:
  "polling_jobs (poll_symbols job_id provider db utcnow symbols s) = polling_jobs s"
proof (induction symbols arbitrary: s)
  case Nil
  then show ?case by simp
next
  case (Cons symbol rest)
  have "polling_jobs (snd (get_latest_price symbol (Some provider) db False utcnow s)) =
      polling_jobs s"
    using get_latest_price_frame [of symbol "Some provider" db False utcnow s] by simp
  with Cons.IH show ?case
    by (cases db) (simp_all add: case_prod_beta split: sum.splits)
qed

lemma polling_tick_keeps_active:
  assumes "polling_jobs s job_id = Some job" and "jc_status job = ''active''"
  shows "\<exists>job'. polling_jobs (polling_tick job_id db utcnow s) job_id = Some job' \<and>
           jc_status job' = ''active''"
  using assms by (simp add: polling_tick_def Let_def)

lemma polling_worker_loop_continues:
  assumes "polling_jobs s job_id = Some job" and "jc_status job = ''active''"
  shows "polling_worker_loop job_id db ((utcnow, during_sleep) # schedule) s =
           polling_worker_loop job_id db schedule (during_sleep (polling_tick job_id db utcnow s))"
  using assms by simp

lemma polling_tick_symbol_failure:
  assumes "polling_jobs s job_id = Some job"
    and "get_provider s (Some (jc_provider job)) = Inr provider_instance"
    and "polling_job_configs (db_state s) job_id = Some row"
    and "i < length (jc_symbols job)"
    and "pv_get_latest_price provider_instance (length (provider_calls s) + i)
           (upper (jc_symbols job ! i)) = Inl e"
  shows "(\<exists>row'. polling_job_configs (db_state (polling_tick job_id True utcnow s)) job_id =
            Some row' \<and> pj_status row' = ''error'') \<and>
         map_option jc_status (polling_jobs (polling_tick job_id True utcnow s) job_id) =
           Some (jc_status job) \<and>
         provider_calls (polling_tick job_id True utcnow s) =
           provider_calls s @
             map (\<lambda>symbol. (pv_name provider_instance, upper symbol)) (jc_symbols job)"
proof -
  let ?s1 = "s\<lparr>db_state := snd (update_polling_job_run_time (db_state s) job_id utcnow
                 (utcnow + seconds (jc_interval job)) utcnow)\<rparr>"
  let ?s2 = "poll_symbols job_id (jc_provider job) True utcnow (jc_symbols job) ?s1"
  have tick: "polling_tick job_id True utcnow s =
      ?s2\<lparr>polling_jobs := (polling_jobs ?s2)
           (job_id \<mapsto> job\<lparr>jc_last_run := Some utcnow,
                           jc_next_run := utcnow + seconds (jc_interval job)\<rparr>)\<rparr>"
    using assms(1) by (simp add: polling_tick_def Let_def)
  have g: "get_provider ?s1 (Some (jc_provider job)) = Inr provider_instance"
    using assms(2) by (simp add: get_provider_def)
  obtain row1 where r1: "polling_job_configs (db_state ?s1) job_id = Some row1"
    using assms(3) by (simp add: update_polling_job_run_time_def get_polling_job_def Let_def)
  have o: "pv_get_latest_price provider_instance (length (provider_calls ?s1) + i)
           (upper (jc_symbols job ! i)) = Inl e"
    using assms(5) by simp
  from poll_symbols_failure_marks_error [OF g r1 assms(4) o, of utcnow]
  have a: "\<exists>row'. polling_job_configs (db_state (polling_tick job_id True utcnow s)) job_id =
            Some row' \<and> pj_status row' = ''error''"
    by (simp add: tick)
  have b: "map_option jc_status (polling_jobs (polling_tick job_id True utcnow s) job_id) =
           Some (jc_status job)"
    by (simp add: tick)
  from poll_symbols_polls_every_symbol [OF g, of job_id True utcnow "jc_symbols job"]
  have c: "provider_calls (polling_tick job_id True utcnow s) =
           provider_calls s @
             map (\<lambda>symbol. (pv_name provider_instance, upper symbol)) (jc_symbols job)"
    by (simp add: tick)
  from a b c show ?thesis by blast
qed

text \<open>
  C5. The claim is that stopping an unknown job returns false and that stopping a known
  active job sets its stored status to \<^verbatim>\<open>stopped\<close> and returns true. The second half
  holds (\<open>stop_polling_job_known\<close>). The first half fails whenever a session is given,
  as it always is through the route: \<^verbatim>\<open>stop_polling_job\<close> drops the result of
  \<^verbatim>\<open>update_polling_job_status\<close> and returns \<^verbatim>\<open>db is not None\<close>. Evaluated on a job
  identifier that is neither in the table nor in the dictionary, the service returns
  true and the route answers that the job was stopped, where its own branch for a false
  result answers 404.
\<close>

theorem stop_unknown_job_reports_success:
  "polling_jobs (service_state (db_with []) ProducerUp) ''poll_deadbeef'' = None \<and>
   polling_job_configs (db_state (service_state (db_with []) ProducerUp)) ''poll_deadbeef'' = None \<and>
   stop_polling_job ''poll_deadbeef'' True 1710930600000000 (service_state (db_with []) ProducerUp) =
     (True, service_state (db_with []) ProducerUp) \<and>
   route_stop_polling_job ''poll_deadbeef'' 1710930600000000 (service_state (db_with []) ProducerUp) =
     (Inr (''poll_deadbeef'', ''stopped''), service_state (db_with []) ProducerUp)"
  by (simp add: route_stop_polling_job_def stop_polling_job_def update_polling_job_status_def
      get_polling_job_def service_state_def db_with_def Let_def)

text \<open>
  C4. The claim is that a failing symbol does not abort the job, that the rest of the
  symbols and the next passes are still polled, and that the failure records the error
  message while the job's status stays \<^verbatim>\<open>active\<close>. The first parts hold for every job
  (\<open>poll_symbols_polls_every_symbol\<close>, \<open>polling_tick_keeps_active\<close>,
  \<open>polling_worker_loop_continues\<close>). The status does not stay: the handler of a failing
  symbol calls \<^verbatim>\<open>update_polling_job_status(job_id, "error", ...)\<close>, so the stored status
  becomes \<^verbatim>\<open>error\<close> while the in-memory status, which the loop tests, stays \<^verbatim>\<open>active\<close>
  (\<open>polling_tick_symbol_failure\<close>). Evaluated on a job over MSFT and AAPL whose first
  symbol is rate-limited: both symbols are polled, the price point of AAPL is saved, the
  in-memory status is \<^verbatim>\<open>active\<close>, the stored status is \<^verbatim>\<open>error\<close> with the message of
  the failure, and the next pass polls both symbols again.
\<close>

theorem symbol_failure_marks_running_job_error:
  "map_option jc_status (polling_jobs polling_state ''poll_a1b2c3d4'') = Some ''active'' \<and>
   map_option pj_status (polling_job_configs (db_state polling_state) ''poll_a1b2c3d4'') =
     Some ''active'' \<and>
   provider_calls (polling_tick ''poll_a1b2c3d4'' True 1710930660000000 polling_state) =
     [(''alphavantage'', ''MSFT''), (''alphavantage'', ''AAPL'')] \<and>
   map pp_symbol (processed_price_points
     (db_state (polling_tick ''poll_a1b2c3d4'' True 1710930660000000 polling_state))) = [''AAPL''] \<and>
   map_option jc_status
     (polling_jobs (polling_tick ''poll_a1b2c3d4'' True 1710930660000000 polling_state)
        ''poll_a1b2c3d4'') = Some ''active'' \<and>
   map_option pj_status
     (polling_job_configs
        (db_state (polling_tick ''poll_a1b2c3d4'' True 1710930660000000 polling_state))
        ''poll_a1b2c3d4'') = Some ''error'' \<and>
   map_option pj_error_message
     (polling_job_configs
        (db_state (polling_tick ''poll_a1b2c3d4'' True 1710930660000000 polling_state))
        ''poll_a1b2c3d4'') =
     Some (Some ''Failed to get price for MSFT: Unexpected error: Alpha Vantage API rate limit exceeded'') \<and>
   provider_calls (polling_worker_loop ''poll_a1b2c3d4'' True
      [(1710930660000000, \<lambda>s. s), (1710930720000000, \<lambda>s. s)] polling_state) =
     [(''alphavantage'', ''MSFT''), (''alphavantage'', ''AAPL''),
      (''alphavantage'', ''MSFT''), (''alphavantage'', ''AAPL'')]"
  by (simp add: polling_state_eq polling_tick_def get_latest_price_def get_provider_def
      fetch_live_def service_state_def initialize_providers_def AlphaVantageProvider_def
      str_or_def DEFAULT_PROVIDER_def db_with_def update_polling_job_run_time_def
      update_polling_job_status_def get_polling_job_def given_def seconds_def Let_def
      alpha_vantage_get_latest_price_def alpha_vantage_quote_def example_http_def
      example_float_def example_clock_def format_response_def upper_AAPL upper_MSFT
      save_raw_market_data_def save_price_point_def publish_price_event_def split_beta)

end
